theory Spec2Isabelle
  imports Main "HOL-Library.Log_Nat"
begin

unbundle bit_operations_syntax

section \<open>JavaScript values\<close>

text \<open>
  The library validates dynamically typed JavaScript values. The embedding keeps plain
  data: \<open>undefined\<close>, \<open>null\<close>, booleans, numbers, big integers, strings, arrays
  and objects without a prototype of their own.

  A string is the list of its UTF-16 code units, each below \<open>0x10000\<close>; \<open>js\<close>
  embeds a text written in the theory. Texts that are ASCII by construction, such as
  the result of \<open>typeof\<close> and the hexadecimal wire format, are kept as HOL strings.

  A number is an IEEE-754 double. \<open>IntNum n\<close> is the double equal to the integer
  \<open>n\<close> (positive zero for 0), \<open>NaN\<close> is the one not-a-number value, and
  \<open>Binary64 negative exponent fraction\<close> is any other double, given by the three
  fields of its bit pattern: the fractional values, the infinities (exponent 2047,
  fraction 0) and negative zero (negative, exponent 0, fraction 0).

  An object is the list of its own enumerable properties in \<open>Object.entries\<close>
  order and inherits from \<open>Object.prototype\<close>; an array inherits from
  \<open>Array.prototype\<close>.
\<close>

type_synonym jsstring = "int list"

definition js :: "string \<Rightarrow> jsstring" where
  "js s = map of_char s"

datatype number = IntNum int | NaN | Binary64 bool int int

definition negative_zero :: number where
  "negative_zero = Binary64 True 0 0"

datatype jsval =
    Undefined
  | Null
  | Bool bool
  | Num number
  | BigInt int
  | Str jsstring
  | Arr "jsval list"
  | Obj "(jsstring \<times> jsval) list"

fun typeof :: "jsval \<Rightarrow> string" where
  "typeof Undefined = ''undefined''"
| "typeof Null = ''object''"
| "typeof (Bool b) = ''boolean''"
| "typeof (Num x) = ''number''"
| "typeof (BigInt n) = ''bigint''"
| "typeof (Str s) = ''string''"
| "typeof (Arr xs) = ''object''"
| "typeof (Obj kvs) = ''object''"

section \<open>Errors\<close>

text \<open>
  Every \<open>throw\<close> of the source is a left injection. \<open>LeptonError msg path\<close> is the
  library's own error with its message and its path of property names and indices;
  \<open>JsError\<close> is an exception raised by the JavaScript runtime itself (a
  \<open>TypeError\<close> or \<open>RangeError\<close>). \<open>Unrepresentable\<close> is not an outcome of the
  source: it marks the places where the source computes with a value the embedding
  does not follow, namely the decimal text of a number that is not an integer below
  \<open>10^21\<close>, the value of a numeric text that is not an integer below \<open>2^53\<close>, a
  single-precision value that is not an integer, and a member of a built-in prototype.
  \<open>prepend_path\<close> is the \<open>catch\<close> clause of the object and array codecs, which
  extends the path of a \<open>LeptonError\<close> and rethrows anything else unchanged.
\<close>

datatype error = LeptonError jsstring "jsstring list" | JsError | Unrepresentable

fun prepend_path :: "jsstring \<Rightarrow> error \<Rightarrow> error" where
  "prepend_path key (LeptonError msg path) = LeptonError msg (key # path)"
| "prepend_path key err = err"

fun collect :: "(error + 'a) list \<Rightarrow> error + 'a list" where
  "collect [] = Inr []"
| "collect (x # xs) =
     (case x of
        Inl err \<Rightarrow> Inl err
      | Inr y \<Rightarrow> (case collect xs of Inl err \<Rightarrow> Inl err | Inr ys \<Rightarrow> Inr (y # ys)))"

section \<open>Numbers and text\<close>

subsection \<open>Printing numbers\<close>

text \<open>
  \<open>toString radix n\<close> is \<open>n.toString(radix)\<close> on a big integer, and on an
  integer-valued number below \<open>10^21\<close> in magnitude; \<open>hex2 n\<close> is
  \<open>n.toString(16).padStart(2, '0')\<close>, the expression every encoder uses to emit one
  byte. The digit loop works on \<open>int\<close> and recurses on the quotient.
  \<open>number_toString\<close> is \<open>Number.prototype.toString\<close> in radix 10 where the
  embedding follows it, and \<open>ToString\<close> is the coercion \<open>String(x)\<close>, also applied
  by template literals: an array prints its elements separated by commas, an object
  prints \<open>[object Object]\<close> unless an own property shadows the inherited method.
  \<open>array_join\<close> is \<open>Array.prototype.join\<close>, which prints \<open>undefined\<close> and
  \<open>null\<close> as nothing.
\<close>

definition hex_digit :: "nat \<Rightarrow> char" where
  "hex_digit d = ''0123456789abcdef'' ! d"

function digits :: "int \<Rightarrow> int \<Rightarrow> string" where
  "digits radix n =
     (if radix < 2 \<or> n < radix then [hex_digit (nat n)]
      else digits radix (n div radix) @ [hex_digit (nat (n mod radix))])"
  by pat_completeness auto
termination
  by (relation "measure (\<lambda>(radix, n). nat n)") (auto simp: int_div_less_self)

declare digits.simps [simp del]

definition toString :: "int \<Rightarrow> int \<Rightarrow> string" where
  "toString radix n = (if n < 0 then CHR ''-'' # digits radix (- n) else digits radix n)"

definition padStart :: "nat \<Rightarrow> char \<Rightarrow> string \<Rightarrow> string" where
  "padStart k c s = replicate (k - length s) c @ s"

definition hex2 :: "int \<Rightarrow> string" where
  "hex2 n = padStart 2 CHR ''0'' (toString 16 n)"

fun join :: "'a list \<Rightarrow> 'a list list \<Rightarrow> 'a list" where
  "join sep [] = []"
| "join sep [x] = x"
| "join sep (x # y # ys) = x @ sep @ join sep (y # ys)"

fun number_toString :: "number \<Rightarrow> error + jsstring" where
  "number_toString (IntNum n) =
     (if \<bar>n\<bar> < 10 ^ 21 then Inr (js (toString 10 n)) else Inl Unrepresentable)"
| "number_toString NaN = Inr (js ''NaN'')"
| "number_toString (Binary64 negative exponent fraction) =
     (if exponent = 2047 \<and> fraction = 0 then Inr (js (if negative then ''-Infinity'' else ''Infinity''))
      else if exponent = 0 \<and> fraction = 0 then Inr (js ''0'')
      else Inl Unrepresentable)"

fun ToString :: "jsval \<Rightarrow> error + jsstring" where
  "ToString Undefined = Inr (js ''undefined'')"
| "ToString Null = Inr (js ''null'')"
| "ToString (Bool b) = Inr (js (if b then ''true'' else ''false''))"
| "ToString (Num x) = number_toString x"
| "ToString (BigInt n) = Inr (js (toString 10 n))"
| "ToString (Str s) = Inr s"
| "ToString (Arr xs) =
     (case collect (map (\<lambda>x. if x = Undefined \<or> x = Null then Inr [] else ToString x) xs) of
        Inl err \<Rightarrow> Inl err
      | Inr texts \<Rightarrow> Inr (join (js '','') texts))"
| "ToString (Obj kvs) =
     (if js ''toString'' \<in> fst ` set kvs then Inl JsError else Inr (js ''[object Object]''))"

definition array_join :: "jsstring \<Rightarrow> jsval list \<Rightarrow> error + jsstring" where
  "array_join sep xs =
     (case collect (map (\<lambda>x. if x = Undefined \<or> x = Null then Inr [] else ToString x) xs) of
        Inl err \<Rightarrow> Inl err
      | Inr texts \<Rightarrow> Inr (join sep texts))"

subsection \<open>Reading numbers\<close>

text \<open>
  \<open>parseInt16 s\<close> is \<open>parseInt(s, 16)\<close> on a slice of the wire: leading white
  space is skipped, a sign and a \<open>0x\<close> prefix are accepted, the longest run of
  hexadecimal digits is read and the result is \<open>NaN\<close> when that run is empty.

  \<open>StringToNumber\<close> is the conversion \<open>Number(s)\<close> of a string. The recogniser
  \<open>StringNumericLiteral\<close> follows the grammar of the language: white space on both
  sides, then nothing, or a binary, octal or hexadecimal integer, or an optionally
  signed \<open>Infinity\<close> or decimal with optional fraction and exponent. What is not a
  literal converts to \<open>NaN\<close>; the value of a literal is followed when it is zero,
  infinite or an integer below \<open>2^53\<close>.
\<close>

definition is_ws :: "char \<Rightarrow> bool" where
  "is_ws c = (of_char c \<in> {9, 10, 11, 12, 13, 32, 160 :: nat})"

definition is_hex_digit :: "char \<Rightarrow> bool" where
  "is_hex_digit c =
     (let k = of_char c :: nat
      in (48 \<le> k \<and> k \<le> 57) \<or> (97 \<le> k \<and> k \<le> 102) \<or> (65 \<le> k \<and> k \<le> 70))"

definition hex_val :: "char \<Rightarrow> int" where
  "hex_val c =
     (let k = of_char c :: int
      in if k \<le> 57 then k - 48 else if 97 \<le> k then k - 87 else k - 55)"

definition parseInt16 :: "string \<Rightarrow> number" where
  "parseInt16 s =
     (let s1 = dropWhile is_ws s;
          neg = (take 1 s1 = ''-'');
          s2 = (if take 1 s1 = ''+'' \<or> take 1 s1 = ''-'' then drop 1 s1 else s1);
          s3 = (if take 2 s2 = ''0x'' \<or> take 2 s2 = ''0X'' then drop 2 s2 else s2);
          z = takeWhile is_hex_digit s3
      in if z = [] then NaN
         else IntNum ((if neg then - 1 else 1) * foldl (\<lambda>acc c. 16 * acc + hex_val c) 0 z))"

definition slice :: "string \<Rightarrow> nat \<Rightarrow> nat \<Rightarrow> string" where
  "slice s a b = take (b - a) (drop a s)"

definition is_StrWhiteSpaceChar :: "int \<Rightarrow> bool" where
  "is_StrWhiteSpaceChar u =
     (u \<in> {9, 10, 11, 12, 13, 32, 160, 5760, 8232, 8233, 8239, 8287, 12288, 65279}
      \<or> (8192 \<le> u \<and> u \<le> 8202))"

definition digit_value :: "int \<Rightarrow> int" where
  "digit_value u =
     (if 48 \<le> u \<and> u \<le> 57 then u - 48
      else if 97 \<le> u \<and> u \<le> 122 then u - 87
      else if 65 \<le> u \<and> u \<le> 90 then u - 55
      else 36)"

definition is_digit :: "int \<Rightarrow> int \<Rightarrow> bool" where
  "is_digit radix u = (digit_value u < radix)"

definition digits_value :: "int \<Rightarrow> jsstring \<Rightarrow> int" where
  "digits_value radix s = foldl (\<lambda>acc u. radix * acc + digit_value u) 0 s"

datatype literal = Infinite bool | Scaled bool int int

definition StrDecimalLiteral :: "jsstring \<Rightarrow> literal option" where
  "StrDecimalLiteral s =
     (let negative = (take 1 s = js ''-'');
          s1 = (if take 1 s = js ''+'' \<or> take 1 s = js ''-'' then drop 1 s else s);
          whole = takeWhile (is_digit 10) s1;
          r1 = dropWhile (is_digit 10) s1;
          r2 = (if take 1 r1 = js ''.'' then drop 1 r1 else r1);
          frac = (if take 1 r1 = js ''.'' then takeWhile (is_digit 10) r2 else []);
          r3 = (if take 1 r1 = js ''.'' then dropWhile (is_digit 10) r2 else r1);
          mantissa = digits_value 10 (whole @ frac);
          r4 = drop 1 r3;
          r5 = (if take 1 r4 = js ''+'' \<or> take 1 r4 = js ''-'' then drop 1 r4 else r4);
          exponent = (if take 1 r4 = js ''-'' then - digits_value 10 r5 else digits_value 10 r5)
      in if s1 = js ''Infinity'' then Some (Infinite negative)
         else if whole = [] \<and> frac = [] then None
         else if r3 = [] then Some (Scaled negative mantissa (- int (length frac)))
         else if (take 1 r3 = js ''e'' \<or> take 1 r3 = js ''E'') \<and> r5 \<noteq> [] \<and> list_all (is_digit 10) r5
           then Some (Scaled negative mantissa (exponent - int (length frac)))
         else None)"

definition NonDecimalIntegerLiteral :: "jsstring \<Rightarrow> literal option" where
  "NonDecimalIntegerLiteral s =
     (let radix = (if take 2 s = js ''0x'' \<or> take 2 s = js ''0X'' then 16
                   else if take 2 s = js ''0o'' \<or> take 2 s = js ''0O'' then 8
                   else if take 2 s = js ''0b'' \<or> take 2 s = js ''0B'' then 2
                   else 0);
          ds = drop 2 s
      in if radix \<noteq> 0 \<and> ds \<noteq> [] \<and> list_all (is_digit radix) ds
         then Some (Scaled False (digits_value radix ds) 0)
         else None)"

definition StringNumericLiteral :: "jsstring \<Rightarrow> literal option" where
  "StringNumericLiteral s =
     (let t = rev (dropWhile is_StrWhiteSpaceChar (rev (dropWhile is_StrWhiteSpaceChar s)))
      in if t = [] then Some (Scaled False 0 0)
         else (case NonDecimalIntegerLiteral t of
                 Some l \<Rightarrow> Some l
               | None \<Rightarrow> StrDecimalLiteral t))"

definition literal_value :: "literal \<Rightarrow> error + number" where
  "literal_value l =
     (case l of
        Infinite negative \<Rightarrow> Inr (Binary64 negative 2047 0)
      | Scaled negative mantissa exponent \<Rightarrow>
          if mantissa = 0 then Inr (if negative then Binary64 True 0 0 else IntNum 0)
          else if 0 \<le> exponent \<and> mantissa * 10 ^ nat exponent < 2 ^ 53
            then Inr (IntNum ((if negative then - 1 else 1) * (mantissa * 10 ^ nat exponent)))
          else if exponent < 0 \<and> mantissa mod 10 ^ nat (- exponent) = 0
                \<and> mantissa div 10 ^ nat (- exponent) < 2 ^ 53
            then Inr (IntNum ((if negative then - 1 else 1) * (mantissa div 10 ^ nat (- exponent))))
          else Inl Unrepresentable)"

definition StringToNumber :: "jsstring \<Rightarrow> error + number" where
  "StringToNumber s =
     (case StringNumericLiteral s of None \<Rightarrow> Inr NaN | Some l \<Rightarrow> literal_value l)"

fun ToNumber :: "jsval \<Rightarrow> error + number" where
  "ToNumber Undefined = Inr NaN"
| "ToNumber Null = Inr (IntNum 0)"
| "ToNumber (Bool b) = Inr (IntNum (if b then 1 else 0))"
| "ToNumber (Num x) = Inr x"
| "ToNumber (BigInt n) = Inl JsError"
| "ToNumber (Str s) = StringToNumber s"
| "ToNumber (Arr xs) =
     (case ToString (Arr xs) of Inl err \<Rightarrow> Inl err | Inr s \<Rightarrow> StringToNumber s)"
| "ToNumber (Obj kvs) =
     (case ToString (Obj kvs) of Inl err \<Rightarrow> Inl err | Inr s \<Rightarrow> StringToNumber s)"

subsection \<open>Integer conversions and 32-bit operators\<close>

text \<open>
  The operators \<open>&\<close>, \<open>|\<close>, \<open><<\<close> and \<open>>>\<close> on numbers first reduce their
  operands to signed 32-bit integers (\<open>wrap32\<close>) and take the shift count modulo 32;
  the same operators on big integers are the unbounded \<open>AND\<close>, \<open>OR\<close>,
  \<open>push_bit\<close> and \<open>drop_bit\<close>. \<open>integer_part\<close> is the integer part of a number,
  with 0 for \<open>NaN\<close> and the infinities, from which \<open>ToInt32\<close> and the conversion
  of a typed-array store, \<open>ToUint8\<close>, take their residues.
\<close>

fun integer_part :: "number \<Rightarrow> int" where
  "integer_part (IntNum n) = n"
| "integer_part NaN = 0"
| "integer_part (Binary64 negative exponent fraction) =
     (if exponent = 2047 \<or> exponent < 1023 then 0
      else (if negative then - 1 else 1)
           * (if exponent \<ge> 1075 then (2 ^ 52 + fraction) * 2 ^ nat (exponent - 1075)
              else (2 ^ 52 + fraction) div 2 ^ nat (1075 - exponent)))"

definition wrap32 :: "int \<Rightarrow> int" where
  "wrap32 n = (n + 2 ^ 31) mod 2 ^ 32 - 2 ^ 31"

definition ToInt32 :: "number \<Rightarrow> int" where
  "ToInt32 x = wrap32 (integer_part x)"

definition ToUint8 :: "number \<Rightarrow> nat" where
  "ToUint8 x = nat (integer_part x mod 256)"

definition js_and :: "int \<Rightarrow> int \<Rightarrow> int" where
  "js_and a b = wrap32 a AND wrap32 b"

definition js_or :: "int \<Rightarrow> int \<Rightarrow> int" where
  "js_or a b = wrap32 a OR wrap32 b"

definition js_shl :: "int \<Rightarrow> int \<Rightarrow> int" where
  "js_shl a b = wrap32 (wrap32 a * 2 ^ nat (b mod 32))"

definition js_sar :: "int \<Rightarrow> int \<Rightarrow> int" where
  "js_sar a b = wrap32 a div 2 ^ nat (b mod 32)"

definition is_integer :: "jsval \<Rightarrow> bool" where
  "is_integer v =
     (case v of
        Num (IntNum n) \<Rightarrow> True
      | Num (Binary64 negative exponent fraction) \<Rightarrow> negative \<and> exponent = 0 \<and> fraction = 0
      | _ \<Rightarrow> False)"

definition int_of :: "jsval \<Rightarrow> int" where
  "int_of v = (case v of Num (IntNum n) \<Rightarrow> n | _ \<Rightarrow> 0)"

subsection \<open>IEEE-754 bit patterns\<close>


definition binary64_of_int :: "int \<Rightarrow> bool \<times> int \<times> int" where
  "binary64_of_int n =
     (if n = 0 then (False, 0, 0)
      else
        (let e = bitlen \<bar>n\<bar> - 1
         in if e > 1023 then (n < 0, 2047, 0)
            else (n < 0, e + 1023,
                  if e \<le> 52 then (\<bar>n\<bar> - 2 ^ nat e) * 2 ^ nat (52 - e)
                  else \<bar>n\<bar> div 2 ^ nat (e - 52) - 2 ^ 52)))"

fun binary64_of_number :: "number \<Rightarrow> bool \<times> int \<times> int" where
  "binary64_of_number (IntNum n) = binary64_of_int n"
| "binary64_of_number NaN = (False, 2047, 2 ^ 51)"
| "binary64_of_number (Binary64 negative exponent fraction) = (negative, exponent, fraction)"

fun number_of_binary64 :: "bool \<times> int \<times> int \<Rightarrow> number" where
  "number_of_binary64 (negative, exponent, fraction) =
     (if exponent = 2047 then (if fraction = 0 then Binary64 negative 2047 0 else NaN)
      else if exponent = 0 then
        (if fraction = 0 \<and> \<not> negative then IntNum 0 else Binary64 negative 0 fraction)
      else if exponent < 1023 then Binary64 negative exponent fraction
      else if exponent \<ge> 1075 then
        IntNum ((if negative then - 1 else 1) * ((2 ^ 52 + fraction) * 2 ^ nat (exponent - 1075)))
      else if fraction mod 2 ^ nat (1075 - exponent) = 0 then
        IntNum ((if negative then - 1 else 1) * ((2 ^ 52 + fraction) div 2 ^ nat (1075 - exponent)))
      else Binary64 negative exponent fraction)"

definition float64_bytes :: "bool \<times> int \<times> int \<Rightarrow> nat list" where
  "float64_bytes p =
     (case p of (negative, exponent, fraction) \<Rightarrow>
        (let w = (if negative then 2 ^ 63 else 0) + exponent * 2 ^ 52 + fraction
         in map (\<lambda>i. nat ((w div 2 ^ (8 * (7 - i))) mod 256)) [0 ..< 8]))"

definition float64_of_bytes :: "nat list \<Rightarrow> bool \<times> int \<times> int" where
  "float64_of_bytes bytes =
     (let w = foldl (\<lambda>acc b. acc * 256 + int b) 0 bytes
      in (w div 2 ^ 63 = 1, (w div 2 ^ 52) mod 2048, w mod 2 ^ 52))"

definition binary32_of_int :: "int \<Rightarrow> bool \<times> int \<times> int" where
  "binary32_of_int n =
     (if n = 0 then (False, 0, 0)
      else
        (let a = \<bar>n\<bar>;
             e = bitlen a - 1;
             q = a div 2 ^ nat (e - 23);
             r = a mod 2 ^ nat (e - 23);
             up = (e > 23 \<and> (2 * r > 2 ^ nat (e - 23) \<or> (2 * r = 2 ^ nat (e - 23) \<and> odd q)));
             m = (if e \<le> 23 then a * 2 ^ nat (23 - e) else if up then q + 1 else q);
             e' = (if m = 2 ^ 24 then e + 1 else e);
             m' = (if m = 2 ^ 24 then 2 ^ 23 else m)
         in if e' > 127 then (n < 0, 255, 0) else (n < 0, e' + 127, m' - 2 ^ 23)))"

fun binary32_of_number :: "number \<Rightarrow> error + bool \<times> int \<times> int" where
  "binary32_of_number (IntNum n) = Inr (binary32_of_int n)"
| "binary32_of_number NaN = Inr (False, 255, 2 ^ 22)"
| "binary32_of_number (Binary64 negative exponent fraction) =
     (if exponent = 2047 \<and> fraction = 0 then Inr (negative, 255, 0)
      else if exponent = 0 \<and> fraction = 0 then Inr (negative, 0, 0)
      else Inl Unrepresentable)"

fun number_of_binary32 :: "bool \<times> int \<times> int \<Rightarrow> error + number" where
  "number_of_binary32 (negative, exponent, fraction) =
     (if exponent = 255 then Inr (if fraction = 0 then Binary64 negative 2047 0 else NaN)
      else if exponent = 0 \<and> fraction = 0 then
        Inr (if negative then Binary64 True 0 0 else IntNum 0)
      else if exponent \<ge> 150 then
        Inr (IntNum ((if negative then - 1 else 1) * ((2 ^ 23 + fraction) * 2 ^ nat (exponent - 150))))
      else if exponent \<ge> 127 \<and> fraction mod 2 ^ nat (150 - exponent) = 0 then
        Inr (IntNum ((if negative then - 1 else 1) * ((2 ^ 23 + fraction) div 2 ^ nat (150 - exponent))))
      else Inl Unrepresentable)"

definition float32_bytes :: "bool \<times> int \<times> int \<Rightarrow> nat list" where
  "float32_bytes p =
     (case p of (negative, exponent, fraction) \<Rightarrow>
        (let w = (if negative then 2 ^ 31 else 0) + exponent * 2 ^ 23 + fraction
         in map (\<lambda>i. nat ((w div 2 ^ (8 * (3 - i))) mod 256)) [0 ..< 4]))"

definition float32_of_bytes :: "nat list \<Rightarrow> bool \<times> int \<times> int" where
  "float32_of_bytes bytes =
     (let w = foldl (\<lambda>acc b. acc * 256 + int b) 0 bytes
      in (w div 2 ^ 31 = 1, (w div 2 ^ 23) mod 256, w mod 2 ^ 23))"

subsection \<open>UTF-16 and UTF-8\<close>

text \<open>
  \<open>TextEncoder.encode\<close> coerces its argument with \<open>String\<close> (an \<open>undefined\<close>
  argument stands for the empty string), reads the code units as code points, a
  surrogate outside a pair becoming U+FFFD, and emits UTF-8. \<open>TextDecoder.decode\<close>
  with the default options drops a leading byte-order mark, decodes UTF-8 with the
  state machine of the Encoding Standard, which replaces every ill-formed sequence
  by U+FFFD, and returns the code points as UTF-16.
\<close>

definition is_high_surrogate :: "int \<Rightarrow> bool" where
  "is_high_surrogate u = (55296 \<le> u \<and> u < 56320)"

definition is_low_surrogate :: "int \<Rightarrow> bool" where
  "is_low_surrogate u = (56320 \<le> u \<and> u < 57344)"

fun code_points :: "jsstring \<Rightarrow> int list" where
  "code_points [] = []"
| "code_points [u] = [if is_high_surrogate u \<or> is_low_surrogate u then 65533 else u]"
| "code_points (u # w # ws) =
     (if is_high_surrogate u \<and> is_low_surrogate w
      then (65536 + (u - 55296) * 1024 + (w - 56320)) # code_points ws
      else (if is_high_surrogate u \<or> is_low_surrogate u then 65533 else u) # code_points (w # ws))"

definition code_units :: "int \<Rightarrow> jsstring" where
  "code_units c =
     (if c < 65536 then [c] else [55296 + (c - 65536) div 1024, 56320 + (c - 65536) mod 1024])"

definition utf8_bytes :: "int \<Rightarrow> nat list" where
  "utf8_bytes c =
     map nat
       (if c < 128 then [c]
        else if c < 2048 then [192 + c div 64, 128 + c mod 64]
        else if c < 65536 then [224 + c div 4096, 128 + c div 64 mod 64, 128 + c mod 64]
        else [240 + c div 262144, 128 + c div 4096 mod 64, 128 + c div 64 mod 64, 128 + c mod 64])"

definition utf8_encode :: "jsstring \<Rightarrow> nat list" where
  "utf8_encode s = concat (map utf8_bytes (code_points s))"

datatype utf8_state = Start | Pending int nat nat nat

definition utf8_lead :: "nat \<Rightarrow> int list \<times> utf8_state" where
  "utf8_lead b =
     (if b < 128 then ([int b], Start)
      else if 194 \<le> b \<and> b \<le> 223 then ([], Pending (int b mod 32) 1 128 191)
      else if 224 \<le> b \<and> b \<le> 239 then
        ([], Pending (int b mod 16) 2 (if b = 224 then 160 else 128) (if b = 237 then 159 else 191))
      else if 240 \<le> b \<and> b \<le> 244 then
        ([], Pending (int b mod 8) 3 (if b = 240 then 144 else 128) (if b = 244 then 143 else 191))
      else ([65533], Start))"

fun utf8_decode_loop :: "utf8_state \<Rightarrow> nat list \<Rightarrow> int list" where
  "utf8_decode_loop Start [] = []"
| "utf8_decode_loop (Pending c needed lower upper) [] = [65533]"
| "utf8_decode_loop Start (b # bs) =
     (case utf8_lead b of (out, st) \<Rightarrow> out @ utf8_decode_loop st bs)"
| "utf8_decode_loop (Pending c needed lower upper) (b # bs) =
     (if lower \<le> b \<and> b \<le> upper then
        (if needed = 1 then (c * 64 + int b mod 64) # utf8_decode_loop Start bs
         else utf8_decode_loop (Pending (c * 64 + int b mod 64) (needed - 1) 128 191) bs)
      else (case utf8_lead b of (out, st) \<Rightarrow> 65533 # out @ utf8_decode_loop st bs))"

definition utf8_decode :: "nat list \<Rightarrow> jsstring" where
  "utf8_decode bs =
     concat (map code_units
       (utf8_decode_loop Start (if take 3 bs = [239, 187, 191] then drop 3 bs else bs)))"

definition TextEncoder_encode :: "jsval \<Rightarrow> error + nat list" where
  "TextEncoder_encode input =
     (if input = Undefined then Inr []
      else (case ToString input of Inl err \<Rightarrow> Inl err | Inr s \<Rightarrow> Inr (utf8_encode s)))"

section \<open>Variable-length integers\<close>

text \<open>
  The wire format of the source is a string of hexadecimal digits, two per byte, and
  is kept as such. \<open>encodeVarInt\<close> takes a big integer and emits groups of seven
  bits, least significant first, with bit 7 set on every byte but the last. Its
  \<open>while (v > 0n)\<close> loop is the recursion \<open>encodeVarInt_loop\<close>; for a negative
  argument the loop body never runs and the result is the empty string.
  \<open>decodeVarInt\<close> reads bytes up to and including the first one with bit 7 clear,
  or to the end of the input: \<open>varint_bytes\<close> is the scan and \<open>varint_value\<close> the
  accumulation. It has no \<open>throw\<close>.
\<close>

function encodeVarInt_loop :: "int \<Rightarrow> string list" where
  "encodeVarInt_loop v =
     (if v > 0 then
        (let byte = v AND 127;
             v' = drop_bit 7 v;
             byte' = (if v' > 0 then byte OR 128 else byte)
         in hex2 byte' # encodeVarInt_loop v')
      else [])"
  by pat_completeness auto
termination
  by (relation "measure nat") (auto simp: drop_bit_eq_div)

declare encodeVarInt_loop.simps [simp del]

definition encodeVarInt :: "int \<Rightarrow> string" where
  "encodeVarInt v = (if v = 0 then ''00'' else concat (encodeVarInt_loop v))"

fun varint_bytes :: "string \<Rightarrow> number list" where
  "varint_bytes [] = []"
| "varint_bytes (c # cs) =
     (let byte = parseInt16 (take 2 (c # cs))
      in if js_and (ToInt32 byte) 128 = 0 then [byte] else byte # varint_bytes (drop 1 cs))"

fun varint_value :: "number list \<Rightarrow> int \<Rightarrow> nat \<Rightarrow> int" where
  "varint_value [] v shift = v"
| "varint_value (byte # bytes) v shift =
     varint_value bytes (v OR push_bit shift (js_and (ToInt32 byte) 127)) (shift + 7)"

definition decodeVarInt :: "string \<Rightarrow> int \<times> string" where
  "decodeVarInt encoded =
     (let bytes = varint_bytes encoded
      in (varint_value bytes 0 0, drop (length bytes * 2) encoded))"

section \<open>Primitive codecs\<close>

text \<open>
  Each class provides \<open>parse\<close> (validation, returning the accepted value),
  \<open>encode\<close> (a value to hexadecimal text) and \<open>rawDecode\<close> (hexadecimal text to a
  value and the text left over). The integer classes share one validation between
  \<open>parse\<close> and \<open>encode\<close>, written here once as \<open>\<dots>_check\<close>; the error
  messages are those of the source. The byte width of the fixed-width integers is a
  constructor parameter, which the factory functions set to 1, 2 or 4.
  \<open>Number.isInteger\<close> holds of negative zero, which compares equal to 0 and prints
  as \<open>0\<close>. \<open>parseInt\<close> returns an integer or \<open>NaN\<close>, and \<open>NaN\<close> has no
  bit set, so that the signed decoder subtracts from an integer only.
\<close>

subsection \<open>LeptonSignedInt\<close>

definition signed_minValue :: "nat \<Rightarrow> int" where
  "signed_minValue width = - (2 ^ (width * 8 - 1))"

definition signed_maxValue :: "nat \<Rightarrow> int" where
  "signed_maxValue width = 2 ^ (width * 8 - 1) - 1"

definition signed_check :: "nat \<Rightarrow> jsval \<Rightarrow> error option" where
  "signed_check width input =
     (if typeof input \<noteq> ''number'' \<or> \<not> is_integer input then
        Some (LeptonError (js (''Expected integer, got '' @ typeof input)) [])
      else if int_of input < signed_minValue width \<or> int_of input > signed_maxValue width then
        Some (LeptonError (js (''Value out of range for signed int'' @ toString 10 (int (width * 8))
          @ '': must be between '' @ toString 10 (signed_minValue width)
          @ '' and '' @ toString 10 (signed_maxValue width))) [])
      else None)"

definition signed_parse :: "nat \<Rightarrow> jsval \<Rightarrow> error + jsval" where
  "signed_parse width input =
     (case signed_check width input of Some err \<Rightarrow> Inl err | None \<Rightarrow> Inr input)"

definition signed_encode :: "nat \<Rightarrow> jsval \<Rightarrow> error + string" where
  "signed_encode width v =
     (case signed_check width v of
        Some err \<Rightarrow> Inl err
      | None \<Rightarrow>
          (let n = (if int_of v < 0 then 2 ^ (width * 8) + int_of v else int_of v)
           in Inr (padStart (width * 2) CHR ''0'' (toString 16 n))))"

definition signed_rawDecode :: "nat \<Rightarrow> string \<Rightarrow> error + jsval \<times> string" where
  "signed_rawDecode width bytes =
     (if length bytes < width * 2 then
        Inl (LeptonError (js (''Not enough bytes to decode int'' @ toString 10 (int (width * 8)))) [])
      else
        (case parseInt16 (slice bytes 0 (width * 2)) of
           IntNum n \<Rightarrow>
             (let bits = int (width * 8);
                  isNegative = (js_and (ToInt32 (IntNum n)) (js_shl 1 (bits - 1)) \<noteq> 0)
              in Inr (Num (IntNum (if isNegative then n - 2 ^ (width * 8) else n)),
                      drop (width * 2) bytes))
         | v \<Rightarrow> Inr (Num v, drop (width * 2) bytes)))"

subsection \<open>LeptonUnsignedInt\<close>

definition unsigned_maxValue :: "nat \<Rightarrow> int" where
  "unsigned_maxValue width = 2 ^ (width * 8) - 1"

definition unsigned_check :: "nat \<Rightarrow> jsval \<Rightarrow> error option" where
  "unsigned_check width input =
     (if typeof input \<noteq> ''number'' \<or> \<not> is_integer input then
        Some (LeptonError (js (''Expected integer, got '' @ typeof input)) [])
      else if int_of input < 0 \<or> int_of input > unsigned_maxValue width then
        Some (LeptonError (js (''Value out of range for unsigned uint'' @ toString 10 (int (width * 8))
          @ '': must be between 0 and '' @ toString 10 (unsigned_maxValue width))) [])
      else None)"

definition unsigned_parse :: "nat \<Rightarrow> jsval \<Rightarrow> error + jsval" where
  "unsigned_parse width input =
     (case unsigned_check width input of Some err \<Rightarrow> Inl err | None \<Rightarrow> Inr input)"

definition unsigned_encode :: "nat \<Rightarrow> jsval \<Rightarrow> error + string" where
  "unsigned_encode width v =
     (case unsigned_check width v of
        Some err \<Rightarrow> Inl err
      | None \<Rightarrow> Inr (padStart (width * 2) CHR ''0'' (toString 16 (int_of v))))"

definition unsigned_rawDecode :: "nat \<Rightarrow> string \<Rightarrow> error + jsval \<times> string" where
  "unsigned_rawDecode width bytes =
     (if length bytes < width * 2 then
        Inl (LeptonError (js (''Not enough bytes to decode uint'' @ toString 10 (int (width * 8)))) [])
      else Inr (Num (parseInt16 (slice bytes 0 (width * 2))), drop (width * 2) bytes))"

subsection \<open>LeptonBits\<close>

text \<open>
  The largest admitted value is computed by the constructor as
  \<open>(1 << bitWidth) - 1\<close> with the 32-bit shift of numbers, and stored; validation
  reads the stored bound and the decoder recomputes the mask from the bit width.
\<close>

definition bits_maxValue :: "int \<Rightarrow> int" where
  "bits_maxValue bitWidth = js_shl 1 bitWidth - 1"

definition bits_check :: "int \<Rightarrow> int \<Rightarrow> jsval \<Rightarrow> error option" where
  "bits_check bitWidth maxValue input =
     (if typeof input \<noteq> ''number'' \<or> \<not> is_integer input then
        Some (LeptonError (js (''Expected integer, got '' @ typeof input)) [])
      else if int_of input < 0 \<or> int_of input > maxValue then
        Some (LeptonError (js (''Value out of range for '' @ toString 10 bitWidth
          @ ''-bit integer: must be between 0 and '' @ toString 10 maxValue)) [])
      else None)"

definition bits_parse :: "int \<Rightarrow> int \<Rightarrow> jsval \<Rightarrow> error + jsval" where
  "bits_parse bitWidth maxValue input =
     (case bits_check bitWidth maxValue input of Some err \<Rightarrow> Inl err | None \<Rightarrow> Inr input)"

definition bytesNeeded :: "int \<Rightarrow> nat" where
  "bytesNeeded bitWidth = nat ((bitWidth + 7) div 8)"

definition bits_encode :: "int \<Rightarrow> int \<Rightarrow> jsval \<Rightarrow> error + string" where
  "bits_encode bitWidth maxValue v =
     (case bits_check bitWidth maxValue v of
        Some err \<Rightarrow> Inl err
      | None \<Rightarrow>
          Inr (concat (map
            (\<lambda>i. let shift = max 0 ((int (bytesNeeded bitWidth) - int i - 1) * 8);
                     byteValue = js_and (js_sar (int_of v) shift) 255
                 in hex2 byteValue)
            [0 ..< bytesNeeded bitWidth])))"

definition bits_rawDecode :: "int \<Rightarrow> string \<Rightarrow> error + jsval \<times> string" where
  "bits_rawDecode bitWidth bytes =
     (if length bytes < bytesNeeded bitWidth * 2 then
        Inl (LeptonError (js (''Not enough bytes to decode '' @ toString 10 bitWidth @ ''-bit integer'')) [])
      else
        (let v = foldl
               (\<lambda>v i. js_or (js_shl v 8) (ToInt32 (parseInt16 (slice bytes (i * 2) (i * 2 + 2)))))
               0 [0 ..< bytesNeeded bitWidth];
             v' = (if bitWidth mod 8 \<noteq> 0 then js_and v (js_shl 1 bitWidth - 1) else v)
         in Inr (Num (IntNum v'), drop (bytesNeeded bitWidth * 2) bytes)))"

subsection \<open>LeptonBoolean\<close>

definition boolean_parse :: "jsval \<Rightarrow> error + jsval" where
  "boolean_parse input =
     (case input of
        Bool b \<Rightarrow> Inr (Bool (if b then True else False))
      | _ \<Rightarrow> Inl (LeptonError (js (''Expected boolean, got '' @ typeof input)) []))"

definition boolean_encode :: "jsval \<Rightarrow> error + string" where
  "boolean_encode v =
     (case v of
        Bool b \<Rightarrow> Inr (hex2 (if b then 1 else 0))
      | _ \<Rightarrow> Inl (LeptonError (js (''Expected boolean, got '' @ typeof v)) []))"

definition boolean_rawDecode :: "string \<Rightarrow> error + jsval \<times> string" where
  "boolean_rawDecode bytes =
     (if length bytes < 2 then Inl (LeptonError (js ''Not enough bytes to decode boolean'') [])
      else
        (let v = parseInt16 (slice bytes 0 2)
         in Inr (Bool (v \<noteq> NaN \<and> v \<noteq> IntNum 0), drop 2 bytes)))"

subsection \<open>LeptonBigInt\<close>

definition bigint_parse :: "jsval \<Rightarrow> error + jsval" where
  "bigint_parse input =
     (case input of
        BigInt n \<Rightarrow> Inr input
      | _ \<Rightarrow> Inl (LeptonError (js (''Expected bigint, got '' @ typeof input)) []))"

definition bigint_encode :: "jsval \<Rightarrow> error + string" where
  "bigint_encode v =
     (case v of
        BigInt n \<Rightarrow> Inr (encodeVarInt n)
      | _ \<Rightarrow> Inl (LeptonError (js (''Expected bigint, got '' @ typeof v)) []))"

definition bigint_rawDecode :: "string \<Rightarrow> error + jsval \<times> string" where
  "bigint_rawDecode bytes = (case decodeVarInt bytes of (n, rest) \<Rightarrow> Inr (BigInt n, rest))"

subsection \<open>LeptonString\<close>

text \<open>
  \<open>encode\<close> in the source consists of the call of \<open>TextEncoder.encode\<close>, the
  length prefix and the bytes; it contains no validation. The message of
  \<open>rawDecode\<close> prints the length as a number.
\<close>

definition string_parse :: "jsval \<Rightarrow> error + jsval" where
  "string_parse input =
     (case input of
        Str s \<Rightarrow> Inr input
      | _ \<Rightarrow> Inl (LeptonError (js (''Expected string, got '' @ typeof input)) []))"

definition string_encode :: "jsval \<Rightarrow> error + string" where
  "string_encode v =
     (case TextEncoder_encode v of
        Inl err \<Rightarrow> Inl err
      | Inr utf8Bytes \<Rightarrow>
          Inr (encodeVarInt (int (length utf8Bytes))
               @ concat (map (\<lambda>byte. hex2 (int byte)) utf8Bytes)))"

definition string_rawDecode :: "string \<Rightarrow> error + jsval \<times> string" where
  "string_rawDecode bytes =
     (case decodeVarInt bytes of (len, rest) \<Rightarrow>
        (let strLength = nat len
         in if length rest < strLength * 2 then
              Inl (if len < 2 ^ 53
                   then LeptonError (js (''Not enough bytes to decode string of length ''
                          @ toString 10 len)) []
                   else Unrepresentable)
            else
              (let strBytes = map (\<lambda>i. ToUint8 (parseInt16 (slice rest (i * 2) (i * 2 + 2))))
                                  [0 ..< strLength]
               in Inr (Str (utf8_decode strBytes), drop (strLength * 2) rest))))"

subsection \<open>LeptonDouble\<close>

text \<open>
  \<open>encode\<close> has no validation either: \<open>setFloat64\<close> converts its argument to a
  number. The eight bytes are printed and read back one by one.
\<close>

definition double_parse :: "jsval \<Rightarrow> error + jsval" where
  "double_parse input =
     (if typeof input \<noteq> ''number'' then
        Inl (LeptonError (js (''Expected number, got '' @ typeof input)) [])
      else Inr input)"

definition double_encode :: "jsval \<Rightarrow> error + string" where
  "double_encode v =
     (case ToNumber v of
        Inl err \<Rightarrow> Inl err
      | Inr x \<Rightarrow>
          Inr (concat (map (\<lambda>byte. hex2 (int byte)) (float64_bytes (binary64_of_number x)))))"

definition double_rawDecode :: "string \<Rightarrow> error + jsval \<times> string" where
  "double_rawDecode bytes =
     (if length bytes < 16 then Inl (LeptonError (js ''Not enough bytes to decode double'') [])
      else
        (let view = map (\<lambda>i. ToUint8 (parseInt16 (slice bytes (i * 2) (i * 2 + 2)))) [0 ..< 8]
         in Inr (Num (number_of_binary64 (float64_of_bytes view)), drop 16 bytes)))"

subsection \<open>LeptonFloat\<close>

text \<open>
  \<open>roundToPrecision\<close> returns 0 for a zero, and otherwise looks for a decimal point
  in \<open>value.toString()\<close>: when more than \<open>precision\<close> characters follow the first
  point it returns \<open>parseFloat(value.toFixed(precision))\<close>, else the value itself.
  The decimal text of an integer below \<open>10^21\<close>, of \<open>NaN\<close> and of the infinities
  has no point. From \<open>10^21\<close> on the text is in exponent notation and
  \<open>toFixed\<close> returns that same text, which \<open>parseFloat\<close> reads back as the
  value, so that the value itself results whether or not a point is found. The text
  of a number that is not an integer is not followed. A value that is not a number
  has no method \<open>toFixed\<close>. \<open>parse\<close>, \<open>encode\<close> and \<open>rawDecode\<close>
  all round, with \<open>precision = 7\<close>, and \<open>encode\<close> has no validation.
\<close>

definition fraction_length :: "jsstring \<Rightarrow> nat" where
  "fraction_length str =
     length (takeWhile (\<lambda>u. u \<noteq> 46) (drop 1 (dropWhile (\<lambda>u. u \<noteq> 46) str)))"

definition roundToPrecision :: "jsval \<Rightarrow> nat \<Rightarrow> error + jsval" where
  "roundToPrecision v precision =
     (if v = Num (IntNum 0) \<or> v = Num (Binary64 True 0 0) then Inr (Num (IntNum 0))
      else if v = Undefined \<or> v = Null then Inl JsError
      else if (case v of Num (IntNum n) \<Rightarrow> 10 ^ 21 \<le> \<bar>n\<bar> | _ \<Rightarrow> False) then Inr v
      else
        (case ToString v of
           Inl err \<Rightarrow> Inl err
         | Inr str \<Rightarrow>
             if 46 \<in> set str \<and> fraction_length str > precision
             then Inl (if typeof v = ''number'' then Unrepresentable else JsError)
             else Inr v))"

definition float_parse :: "jsval \<Rightarrow> error + jsval" where
  "float_parse input =
     (if typeof input \<noteq> ''number'' then
        Inl (LeptonError (js (''Expected number, got '' @ typeof input)) [])
      else roundToPrecision input 7)"

definition float_encode :: "jsval \<Rightarrow> error + string" where
  "float_encode v =
     (case roundToPrecision v 7 of
        Inl err \<Rightarrow> Inl err
      | Inr v' \<Rightarrow>
          (case ToNumber v' of
             Inl err \<Rightarrow> Inl err
           | Inr x \<Rightarrow>
               (case binary32_of_number x of
                  Inl err \<Rightarrow> Inl err
                | Inr p \<Rightarrow> Inr (concat (map (\<lambda>byte. hex2 (int byte)) (float32_bytes p))))))"

definition float_rawDecode :: "string \<Rightarrow> error + jsval \<times> string" where
  "float_rawDecode bytes =
     (if length bytes < 8 then Inl (LeptonError (js ''Not enough bytes to decode float'') [])
      else
        (let view = map (\<lambda>i. ToUint8 (parseInt16 (slice bytes (i * 2) (i * 2 + 2)))) [0 ..< 4]
         in case number_of_binary32 (float32_of_bytes view) of
              Inl err \<Rightarrow> Inl err
            | Inr x \<Rightarrow>
                (case roundToPrecision (Num x) 7 of
                   Inl err \<Rightarrow> Inl err
                 | Inr v \<Rightarrow> Inr (v, drop 8 bytes))))"

section \<open>Properties\<close>

text \<open>
  \<open>own_entries\<close> lists what \<open>Object.keys\<close> and \<open>Object.values\<close> enumerate;
  arrays and strings have their indices and a non-enumerable \<open>length\<close>.
  \<open>inherited_names\<close> are the names an object or array finds on its prototype
  chain, so that \<open>has_property\<close> is the operator \<open>in\<close>. \<open>get_property\<close> is
  property access where the property is an own one or nowhere on the chain; the
  members of the prototypes themselves are not values of the embedding.
  \<open>set_property\<close> is the assignment \<open>result[key] = value\<close> on an object built
  from \<open>{}\<close>, which keeps the position of a key already present; the assignment to
  \<open>__proto__\<close> replaces the prototype instead and is not followed.
\<close>

fun own_entries :: "jsval \<Rightarrow> (jsstring \<times> jsval) list" where
  "own_entries (Obj kvs) = kvs"
| "own_entries (Arr xs) = zip (map (\<lambda>i. js (toString 10 (int i))) [0 ..< length xs]) xs"
| "own_entries (Str cs) =
     zip (map (\<lambda>i. js (toString 10 (int i))) [0 ..< length cs]) (map (\<lambda>c. Str [c]) cs)"
| "own_entries v = []"

fun hidden_entries :: "jsval \<Rightarrow> (jsstring \<times> jsval) list" where
  "hidden_entries (Arr xs) = [(js ''length'', Num (IntNum (int (length xs))))]"
| "hidden_entries (Str cs) = [(js ''length'', Num (IntNum (int (length cs))))]"
| "hidden_entries v = []"

definition Object_prototype_names :: "jsstring list" where
  "Object_prototype_names = map js
     [''constructor'', ''__defineGetter__'', ''__defineSetter__'', ''hasOwnProperty'',
      ''__lookupGetter__'', ''__lookupSetter__'', ''isPrototypeOf'', ''propertyIsEnumerable'',
      ''toString'', ''valueOf'', ''__proto__'', ''toLocaleString'']"

definition Array_prototype_names :: "jsstring list" where
  "Array_prototype_names = map js
     [''at'', ''concat'', ''copyWithin'', ''fill'', ''find'', ''findIndex'', ''findLast'',
      ''findLastIndex'', ''lastIndexOf'', ''pop'', ''push'', ''reverse'', ''shift'', ''unshift'',
      ''slice'', ''sort'', ''splice'', ''includes'', ''indexOf'', ''join'', ''keys'', ''entries'',
      ''values'', ''forEach'', ''filter'', ''flat'', ''flatMap'', ''map'', ''every'', ''some'',
      ''reduce'', ''reduceRight'', ''toReversed'', ''toSorted'', ''toSpliced'', ''with'']"

fun inherited_names :: "jsval \<Rightarrow> jsstring list" where
  "inherited_names (Obj kvs) = Object_prototype_names"
| "inherited_names (Arr xs) = Array_prototype_names @ Object_prototype_names"
| "inherited_names v = []"

definition own_property :: "jsval \<Rightarrow> jsstring \<Rightarrow> bool" where
  "own_property v key = (key \<in> fst ` set (own_entries v @ hidden_entries v))"

definition has_property :: "jsval \<Rightarrow> jsstring \<Rightarrow> bool" where
  "has_property v key = (own_property v key \<or> key \<in> set (inherited_names v))"

definition get_property :: "jsval \<Rightarrow> jsstring \<Rightarrow> jsval" where
  "get_property v key =
     (case map_of (own_entries v @ hidden_entries v) key of None \<Rightarrow> Undefined | Some x \<Rightarrow> x)"

fun set_property :: "(jsstring \<times> jsval) list \<Rightarrow> jsstring \<Rightarrow> jsval \<Rightarrow> (jsstring \<times> jsval) list" where
  "set_property [] key v = [(key, v)]"
| "set_property ((k, x) # kvs) key v =
     (if k = key then (k, v) # kvs else (k, x) # set_property kvs key v)"

section \<open>Enums\<close>

subsection \<open>LeptonEnum\<close>

text \<open>
  Validation looks \<open>String(input)\<close> up in the set of values; encoding validates and
  then emits \<open>values.indexOf(v)\<close>, which compares with strict equality and is
  \<open>-1\<close> for anything that is not a string of the list.
\<close>

definition enum_parse :: "jsstring list \<Rightarrow> jsval \<Rightarrow> error + jsval" where
  "enum_parse values input =
     (case ToString input of
        Inl err \<Rightarrow> Inl err
      | Inr text \<Rightarrow>
          if text \<notin> set values then
            Inl (LeptonError (js ''Invalid enum value. Expected one of: '' @ join (js '', '') values
              @ js '', got: '' @ text) [])
          else Inr input)"

fun index_from :: "jsstring list \<Rightarrow> jsstring \<Rightarrow> int \<Rightarrow> int" where
  "index_from [] s i = - 1"
| "index_from (x # xs) s i = (if x = s then i else index_from xs s (i + 1))"

definition indexOf :: "jsstring list \<Rightarrow> jsval \<Rightarrow> int" where
  "indexOf values v = (case v of Str s \<Rightarrow> index_from values s 0 | _ \<Rightarrow> - 1)"

definition enum_encode :: "jsstring list \<Rightarrow> jsval \<Rightarrow> error + string" where
  "enum_encode values v =
     (case enum_parse values v of
        Inl err \<Rightarrow> Inl err
      | Inr _ \<Rightarrow> Inr (hex2 (indexOf values v)))"

definition enum_rawDecode :: "jsstring list \<Rightarrow> string \<Rightarrow> error + jsval \<times> string" where
  "enum_rawDecode values bytes =
     (if length bytes < 2 then Inl (LeptonError (js ''Not enough bytes to decode enum value'') [])
      else
        (case parseInt16 (slice bytes 0 2) of
           IntNum index \<Rightarrow>
             if index \<ge> int (length values) then
               Inl (LeptonError (js (''Invalid enum index: '' @ toString 10 index)) [])
             else if index < 0 then Inr (Undefined, drop 2 bytes)
             else Inr (Str (values ! nat index), drop 2 bytes)
         | _ \<Rightarrow> Inr (Undefined, drop 2 bytes)))"

subsection \<open>LeptonNativeEnum\<close>

text \<open>
  A native enum is built from an object. Its keys are the own keys that do not read
  as numbers, which leaves out the reverse mapping of a numeric TypeScript enum, and
  it is numeric when the value of the first key is a number. Validation of a numeric
  enum converts a numeric string to its number, then compares with the value of every
  key by \<open>===\<close>. Encoding validates, then looks the unconverted argument up among
  \<open>validValues\<close>: for a numeric enum the values that are not strings, otherwise
  the strings and numbers.

  \<open>strict_equal\<close> is \<open>===\<close>: \<open>NaN\<close> equals nothing, the two zeros are equal,
  and arrays and objects are compared by identity, which values of the embedding do
  not have, so that two of them are never taken for the same.
\<close>

definition is_zero :: "number \<Rightarrow> bool" where
  "is_zero x = (x = IntNum 0 \<or> x = Binary64 True 0 0)"

fun strict_equal :: "jsval \<Rightarrow> jsval \<Rightarrow> bool" where
  "strict_equal (Num x) (Num y) = (x \<noteq> NaN \<and> y \<noteq> NaN \<and> (x = y \<or> (is_zero x \<and> is_zero y)))"
| "strict_equal (Arr xs) v = False"
| "strict_equal (Obj kvs) v = False"
| "strict_equal u v = (u = v)"

fun index_of :: "jsval list \<Rightarrow> jsval \<Rightarrow> int \<Rightarrow> int" where
  "index_of [] v i = - 1"
| "index_of (x # xs) v i = (if strict_equal x v then i else index_of xs v (i + 1))"

definition validValues :: "jsval \<Rightarrow> bool \<Rightarrow> jsval list" where
  "validValues enumObject isNumericEnum =
     filter (\<lambda>val. ((typeof val = ''string'') = (\<not> isNumericEnum)) \<or> typeof val = ''number'')
       (map snd (own_entries enumObject))"

definition nativeEnum_convert :: "bool \<Rightarrow> jsval \<Rightarrow> error + jsval" where
  "nativeEnum_convert isNumericEnum input =
     (case input of
        Str s \<Rightarrow>
          if isNumericEnum then
            (case StringToNumber s of
               Inl err \<Rightarrow> Inl err
             | Inr NaN \<Rightarrow> Inr input
             | Inr x \<Rightarrow> Inr (Num x))
          else Inr input
      | _ \<Rightarrow> Inr input)"

definition nativeEnum_parse :: "jsval \<Rightarrow> jsstring list \<Rightarrow> bool \<Rightarrow> jsval \<Rightarrow> error + jsval" where
  "nativeEnum_parse enumObject enumKeys isNumericEnum input =
     (case nativeEnum_convert isNumericEnum input of
        Inl err \<Rightarrow> Inl err
      | Inr input' \<Rightarrow>
          if list_ex (\<lambda>key. strict_equal (get_property enumObject key) input') enumKeys
          then Inr input'
          else
            (case array_join (js '', '') (map (get_property enumObject) enumKeys) of
               Inl err \<Rightarrow> Inl err
             | Inr expected \<Rightarrow>
                 (case ToString input' of
                    Inl err \<Rightarrow> Inl err
                  | Inr text \<Rightarrow>
                      Inl (LeptonError (js ''Invalid enum value. Expected one of: '' @ expected
                        @ js '', got: '' @ text) []))))"

definition nativeEnum_encode :: "jsval \<Rightarrow> jsstring list \<Rightarrow> bool \<Rightarrow> jsval \<Rightarrow> error + string" where
  "nativeEnum_encode enumObject enumKeys isNumericEnum v =
     (case nativeEnum_parse enumObject enumKeys isNumericEnum v of
        Inl err \<Rightarrow> Inl err
      | Inr _ \<Rightarrow>
          (let valueIndex = index_of (validValues enumObject isNumericEnum) v 0
           in if valueIndex = - 1 then
                (case ToString v of
                   Inl err \<Rightarrow> Inl err
                 | Inr text \<Rightarrow> Inl (LeptonError (js ''Could not encode enum value: '' @ text) []))
              else Inr (hex2 valueIndex)))"

definition nativeEnum_rawDecode :: "jsval \<Rightarrow> bool \<Rightarrow> string \<Rightarrow> error + jsval \<times> string" where
  "nativeEnum_rawDecode enumObject isNumericEnum bytes =
     (if length bytes < 2 then Inl (LeptonError (js ''Not enough bytes to decode enum value'') [])
      else
        (case parseInt16 (slice bytes 0 2) of
           IntNum index \<Rightarrow>
             if index \<ge> int (length (validValues enumObject isNumericEnum)) then
               Inl (LeptonError (js (''Invalid enum index: '' @ toString 10 index)) [])
             else if index < 0 then Inr (Undefined, drop 2 bytes)
             else Inr (validValues enumObject isNumericEnum ! nat index, drop 2 bytes)
         | _ \<Rightarrow> Inr (Undefined, drop 2 bytes)))"

section \<open>Wrappers\<close>

text \<open>
  The wrappers are written over the three functions of the wrapped codec, so that the
  statements about them hold for any wrapped codec whatever.
\<close>

subsection \<open>LeptonOptional\<close>

definition optional_parse :: "(jsval \<Rightarrow> error + jsval) \<Rightarrow> jsval \<Rightarrow> error + jsval" where
  "optional_parse wrapped_parse input =
     (if input = Undefined then Inr Undefined else wrapped_parse input)"

definition optional_encode :: "(jsval \<Rightarrow> error + string) \<Rightarrow> jsval \<Rightarrow> error + string" where
  "optional_encode wrapped_encode v =
     (if v = Undefined then Inr ''00''
      else (case wrapped_encode v of Inl err \<Rightarrow> Inl err | Inr s \<Rightarrow> Inr (''01'' @ s)))"

definition optional_rawDecode ::
  "(string \<Rightarrow> error + jsval \<times> string) \<Rightarrow> string \<Rightarrow> error + jsval \<times> string" where
  "optional_rawDecode wrapped_rawDecode bytes =
     (if length bytes < 2 then
        Inl (LeptonError (js ''Not enough bytes to decode optional presence flag'') [])
      else
        (let presenceFlag = parseInt16 (slice bytes 0 2);
             rest = drop 2 bytes
         in if presenceFlag = IntNum 0 then Inr (Undefined, rest) else wrapped_rawDecode rest))"

subsection \<open>LeptonNullable\<close>

definition nullable_parse :: "(jsval \<Rightarrow> error + jsval) \<Rightarrow> jsval \<Rightarrow> error + jsval" where
  "nullable_parse wrapped_parse input =
     (if input = Null then Inr Null else wrapped_parse input)"

definition nullable_encode :: "(jsval \<Rightarrow> error + string) \<Rightarrow> jsval \<Rightarrow> error + string" where
  "nullable_encode wrapped_encode v =
     (if v = Null then Inr ''01''
      else (case wrapped_encode v of Inl err \<Rightarrow> Inl err | Inr s \<Rightarrow> Inr (''00'' @ s)))"

definition nullable_rawDecode ::
  "(string \<Rightarrow> error + jsval \<times> string) \<Rightarrow> string \<Rightarrow> error + jsval \<times> string" where
  "nullable_rawDecode wrapped_rawDecode bytes =
     (if length bytes < 2 then Inl (LeptonError (js ''Not enough bytes to decode nullable flag'') [])
      else
        (let nullFlag = parseInt16 (slice bytes 0 2);
             rest = drop 2 bytes
         in if nullFlag = IntNum 1 then Inr (Null, rest) else wrapped_rawDecode rest))"

subsection \<open>LeptonArray\<close>

text \<open>
  The \<open>for\<close> loops are recursions on the elements still to process, with the
  running index as an argument. \<open>encode\<close> does not validate the array itself: it
  reads \<open>length\<close> and iterates over its argument, which works on an array, treats
  a string as the sequence of its code points under the count of its code units, and
  raises a runtime exception otherwise.
\<close>

fun array_parse_loop ::
  "(jsval \<Rightarrow> error + jsval) \<Rightarrow> jsval list \<Rightarrow> nat \<Rightarrow> error + jsval list" where
  "array_parse_loop element_parse [] i = Inr []"
| "array_parse_loop element_parse (x # xs) i =
     (case element_parse x of
        Inl err \<Rightarrow> Inl (prepend_path (js (toString 10 (int i))) err)
      | Inr r \<Rightarrow>
          (case array_parse_loop element_parse xs (i + 1) of
             Inl err \<Rightarrow> Inl err
           | Inr rs \<Rightarrow> Inr (r # rs)))"

definition array_parse :: "(jsval \<Rightarrow> error + jsval) \<Rightarrow> jsval \<Rightarrow> error + jsval" where
  "array_parse element_parse input =
     (case input of
        Arr xs \<Rightarrow>
          (case array_parse_loop element_parse xs 0 of
             Inl err \<Rightarrow> Inl err
           | Inr result \<Rightarrow> Inr (Arr result))
      | _ \<Rightarrow> Inl (LeptonError (js (''Expected array, got '' @ typeof input)) []))"

fun encode_all :: "(jsval \<Rightarrow> error + string) \<Rightarrow> jsval list \<Rightarrow> error + string" where
  "encode_all element_encode [] = Inr []"
| "encode_all element_encode (x # xs) =
     (case element_encode x of
        Inl err \<Rightarrow> Inl err
      | Inr s \<Rightarrow>
          (case encode_all element_encode xs of
             Inl err \<Rightarrow> Inl err
           | Inr s' \<Rightarrow> Inr (s @ s')))"

fun string_iterator :: "jsstring \<Rightarrow> jsstring list" where
  "string_iterator [] = []"
| "string_iterator [u] = [[u]]"
| "string_iterator (u # w # ws) =
     (if is_high_surrogate u \<and> is_low_surrogate w then [u, w] # string_iterator ws
      else [u] # string_iterator (w # ws))"

definition array_encode :: "(jsval \<Rightarrow> error + string) \<Rightarrow> jsval \<Rightarrow> error + string" where
  "array_encode element_encode v =
     (case v of
        Arr xs \<Rightarrow>
          (case encode_all element_encode xs of
             Inl err \<Rightarrow> Inl err
           | Inr s \<Rightarrow> Inr (encodeVarInt (int (length xs)) @ s))
      | Str cs \<Rightarrow>
          (case encode_all element_encode (map Str (string_iterator cs)) of
             Inl err \<Rightarrow> Inl err
           | Inr s \<Rightarrow> Inr (encodeVarInt (int (length cs)) @ s))
      | _ \<Rightarrow> Inl JsError)"

fun array_rawDecode_loop ::
  "(string \<Rightarrow> error + jsval \<times> string) \<Rightarrow> nat \<Rightarrow> nat \<Rightarrow> string \<Rightarrow> error + jsval list \<times> string"
  where
  "array_rawDecode_loop element_rawDecode 0 i remaining = Inr ([], remaining)"
| "array_rawDecode_loop element_rawDecode (Suc n) i remaining =
     (case element_rawDecode remaining of
        Inl err \<Rightarrow> Inl (prepend_path (js (toString 10 (int i))) err)
      | Inr (element, nextRemaining) \<Rightarrow>
          (case array_rawDecode_loop element_rawDecode n (i + 1) nextRemaining of
             Inl err \<Rightarrow> Inl err
           | Inr (result, remaining') \<Rightarrow> Inr (element # result, remaining')))"

definition array_rawDecode ::
  "(string \<Rightarrow> error + jsval \<times> string) \<Rightarrow> string \<Rightarrow> error + jsval \<times> string" where
  "array_rawDecode element_rawDecode bytes =
     (case decodeVarInt bytes of (len, rest) \<Rightarrow>
        (case array_rawDecode_loop element_rawDecode (nat len) 0 rest of
           Inl err \<Rightarrow> Inl err
         | Inr (result, remaining) \<Rightarrow> Inr (Arr result, remaining)))"

section \<open>Objects\<close>

text \<open>
  A field of the shape is a name, whether its codec is a \<open>LeptonOptional\<close>, and the
  functions of the codec. The shape is a plain object too, so that the strict test
  \<open>key in this.shape\<close> also holds of the names of \<open>Object.prototype\<close>.
  \<open>encode\<close> reads every field of the shape from its argument in shape order,
  neither validating the object nor looking at other keys; property access on a
  primitive value is followed for its own properties only.
\<close>

fun object_parse_loop ::
  "(jsstring \<times> bool \<times> (jsval \<Rightarrow> error + jsval)) list \<Rightarrow> jsval \<Rightarrow> (jsstring \<times> jsval) list
     \<Rightarrow> error + (jsstring \<times> jsval) list" where
  "object_parse_loop [] input result = Inr result"
| "object_parse_loop ((key, isOptional, field_parse) # fields) input result =
     (if \<not> has_property input key \<and> \<not> isOptional then
        Inl (LeptonError (js ''Missing required property: '' @ key) [])
      else if has_property input key then
        (if \<not> own_property input key \<or> key = js ''__proto__'' then Inl Unrepresentable
         else
           (case field_parse (get_property input key) of
              Inl err \<Rightarrow> Inl (prepend_path key err)
            | Inr r \<Rightarrow> object_parse_loop fields input (set_property result key r)))
      else object_parse_loop fields input result)"

definition object_parse ::
  "(jsstring \<times> bool \<times> (jsval \<Rightarrow> error + jsval)) list \<Rightarrow> bool \<Rightarrow> jsval \<Rightarrow> error + jsval" where
  "object_parse shape isStrict input =
     (if typeof input \<noteq> ''object'' \<or> input = Null then
        Inl (LeptonError (js (''Expected object, got '' @ typeof input)) [])
      else
        (let extraKeys = filter (\<lambda>key. key \<notin> fst ` set shape \<and> key \<notin> set Object_prototype_names)
                           (map fst (own_entries input))
         in if isStrict \<and> extraKeys \<noteq> [] then
              Inl (LeptonError (js ''Unrecognized key(s) in object: '' @ join (js '', '') extraKeys) [])
            else
              (case object_parse_loop shape input [] of
                 Inl err \<Rightarrow> Inl err
               | Inr result \<Rightarrow> Inr (Obj result))))"

fun object_encode_loop ::
  "(jsstring \<times> (jsval \<Rightarrow> error + string)) list \<Rightarrow> jsval \<Rightarrow> error + string" where
  "object_encode_loop [] v = Inr []"
| "object_encode_loop ((key, field_encode) # fields) v =
     (if v = Undefined \<or> v = Null then Inl JsError
      else if \<not> own_property v key \<and> (typeof v \<noteq> ''object'' \<or> key \<in> set (inherited_names v))
        then Inl Unrepresentable
      else
        (case field_encode (get_property v key) of
           Inl err \<Rightarrow> Inl err
         | Inr s \<Rightarrow>
             (case object_encode_loop fields v of
                Inl err \<Rightarrow> Inl err
              | Inr s' \<Rightarrow> Inr (s @ s'))))"

fun object_rawDecode_loop ::
  "(jsstring \<times> (string \<Rightarrow> error + jsval \<times> string)) list \<Rightarrow> string \<Rightarrow> (jsstring \<times> jsval) list
     \<Rightarrow> error + (jsstring \<times> jsval) list \<times> string" where
  "object_rawDecode_loop [] remaining result = Inr (result, remaining)"
| "object_rawDecode_loop ((key, field_rawDecode) # fields) remaining result =
     (case field_rawDecode remaining of
        Inl err \<Rightarrow> Inl (prepend_path key err)
      | Inr (fieldValue, nextRemaining) \<Rightarrow>
          if key = js ''__proto__'' then Inl Unrepresentable
          else object_rawDecode_loop fields nextRemaining (set_property result key fieldValue))"

definition object_rawDecode ::
  "(jsstring \<times> (string \<Rightarrow> error + jsval \<times> string)) list \<Rightarrow> string \<Rightarrow> error + jsval \<times> string" where
  "object_rawDecode shape bytes =
     (case object_rawDecode_loop shape bytes [] of
        Inl err \<Rightarrow> Inl err
      | Inr (result, remaining) \<Rightarrow> Inr (Obj result, remaining))"

section \<open>Schema nodes\<close>

text \<open>
  A schema is a tree of codec instances, one constructor for each class of the
  library. The three interpreters dispatch on the node as the method calls of the
  source dispatch on the class, and \<open>decode\<close> is the inherited method of the base
  class: \<open>rawDecode\<close>, then \<open>parse\<close> on the value, dropping the remainder.
\<close>

datatype schema =
    LeptonSignedInt nat
  | LeptonUnsignedInt nat
  | LeptonBits int int
  | LeptonFloat
  | LeptonDouble
  | LeptonBoolean
  | LeptonString
  | LeptonBigInt
  | LeptonEnum "jsstring list"
  | LeptonNativeEnum jsval "jsstring list" bool
  | LeptonObject "(jsstring \<times> schema) list" bool
  | LeptonOptional schema
  | LeptonNullable schema
  | LeptonArray schema

fun is_LeptonOptional :: "schema \<Rightarrow> bool" where
  "is_LeptonOptional (LeptonOptional T) = True"
| "is_LeptonOptional S = False"

fun parse :: "schema \<Rightarrow> jsval \<Rightarrow> error + jsval" where
  "parse (LeptonSignedInt width) = signed_parse width"
| "parse (LeptonUnsignedInt width) = unsigned_parse width"
| "parse (LeptonBits bitWidth maxValue) = bits_parse bitWidth maxValue"
| "parse LeptonFloat = float_parse"
| "parse LeptonDouble = double_parse"
| "parse LeptonBoolean = boolean_parse"
| "parse LeptonString = string_parse"
| "parse LeptonBigInt = bigint_parse"
| "parse (LeptonEnum values) = enum_parse values"
| "parse (LeptonNativeEnum enumObject enumKeys isNumericEnum) =
     nativeEnum_parse enumObject enumKeys isNumericEnum"
| "parse (LeptonObject shape isStrict) =
     object_parse (map (\<lambda>(key, S). (key, is_LeptonOptional S, parse S)) shape) isStrict"
| "parse (LeptonOptional T) = optional_parse (parse T)"
| "parse (LeptonNullable T) = nullable_parse (parse T)"
| "parse (LeptonArray T) = array_parse (parse T)"

fun encode :: "schema \<Rightarrow> jsval \<Rightarrow> error + string" where
  "encode (LeptonSignedInt width) = signed_encode width"
| "encode (LeptonUnsignedInt width) = unsigned_encode width"
| "encode (LeptonBits bitWidth maxValue) = bits_encode bitWidth maxValue"
| "encode LeptonFloat = float_encode"
| "encode LeptonDouble = double_encode"
| "encode LeptonBoolean = boolean_encode"
| "encode LeptonString = string_encode"
| "encode LeptonBigInt = bigint_encode"
| "encode (LeptonEnum values) = enum_encode values"
| "encode (LeptonNativeEnum enumObject enumKeys isNumericEnum) =
     nativeEnum_encode enumObject enumKeys isNumericEnum"
| "encode (LeptonObject shape isStrict) =
     object_encode_loop (map (\<lambda>(key, S). (key, encode S)) shape)"
| "encode (LeptonOptional T) = optional_encode (encode T)"
| "encode (LeptonNullable T) = nullable_encode (encode T)"
| "encode (LeptonArray T) = array_encode (encode T)"

fun rawDecode :: "schema \<Rightarrow> string \<Rightarrow> error + jsval \<times> string" where
  "rawDecode (LeptonSignedInt width) = signed_rawDecode width"
| "rawDecode (LeptonUnsignedInt width) = unsigned_rawDecode width"
| "rawDecode (LeptonBits bitWidth maxValue) = bits_rawDecode bitWidth"
| "rawDecode LeptonFloat = float_rawDecode"
| "rawDecode LeptonDouble = double_rawDecode"
| "rawDecode LeptonBoolean = boolean_rawDecode"
| "rawDecode LeptonString = string_rawDecode"
| "rawDecode LeptonBigInt = bigint_rawDecode"
| "rawDecode (LeptonEnum values) = enum_rawDecode values"
| "rawDecode (LeptonNativeEnum enumObject enumKeys isNumericEnum) =
     nativeEnum_rawDecode enumObject isNumericEnum"
| "rawDecode (LeptonObject shape isStrict) =
     object_rawDecode (map (\<lambda>(key, S). (key, rawDecode S)) shape)"
| "rawDecode (LeptonOptional T) = optional_rawDecode (rawDecode T)"
| "rawDecode (LeptonNullable T) = nullable_rawDecode (rawDecode T)"
| "rawDecode (LeptonArray T) = array_rawDecode (rawDecode T)"

definition decode :: "schema \<Rightarrow> string \<Rightarrow> error + jsval" where
  "decode S bytes =
     (case rawDecode S bytes of
        Inl err \<Rightarrow> Inl err
      | Inr (v, rest) \<Rightarrow> parse S v)"

section \<open>Constructors and factory functions\<close>

text \<open>
  Constructors that can throw return a sum. \<open>strict\<close> is the method of
  \<open>LeptonObject\<close> that returns the same shape with the strictness flag set; the
  clause for other nodes makes the function total. \<open>new_LeptonEnum\<close> takes the
  argument as the constructor receives it, with its checks in source order, and
  \<open>enum_exclude\<close> is the method \<open>exclude\<close> on an enum with the given values.
  \<open>nativeEnum\<close> is \<open>LeptonNativeEnum.create\<close> followed by the constructor.
\<close>

definition int8 :: schema where "int8 = LeptonSignedInt 1"
definition int16 :: schema where "int16 = LeptonSignedInt 2"
definition int32 :: schema where "int32 = LeptonSignedInt 4"
definition uint8 :: schema where "uint8 = LeptonUnsignedInt 1"
definition uint16 :: schema where "uint16 = LeptonUnsignedInt 2"
definition uint32 :: schema where "uint32 = LeptonUnsignedInt 4"

definition bits :: "int \<Rightarrow> error + schema" where
  "bits bitWidth =
     (if bitWidth \<le> 0 \<or> bitWidth > 32 then
        Inl (LeptonError (js (''Bit width must be between 1 and 32, got '' @ toString 10 bitWidth)) [])
      else Inr (LeptonBits bitWidth (js_shl 1 bitWidth - 1)))"

definition array :: "schema \<Rightarrow> schema" where "array elementType = LeptonArray elementType"
definition optional :: "schema \<Rightarrow> schema" where "optional elementType = LeptonOptional elementType"
definition nullable :: "schema \<Rightarrow> schema" where "nullable elementType = LeptonNullable elementType"

definition object :: "(jsstring \<times> schema) list \<Rightarrow> schema" where
  "object shape = LeptonObject shape False"

fun strict :: "schema \<Rightarrow> schema" where
  "strict (LeptonObject shape isStrict) = LeptonObject shape True"
| "strict S = S"

definition new_LeptonEnum :: "jsval \<Rightarrow> error + schema" where
  "new_LeptonEnum values =
     (if values = Undefined \<or> values = Null then
        Inl (LeptonError (js ''Enum values cannot be null or undefined'') [])
      else
        (case values of
           Arr xs \<Rightarrow>
             if length xs = 0 then Inl (LeptonError (js ''Enum must have at least one value'') [])
             else if \<not> list_all (\<lambda>val. typeof val = ''string'') xs then
               Inl (LeptonError (js ''All enum values must be of the same type (string)'') [])
             else if \<not> distinct xs then Inl (LeptonError (js ''Enum values must be unique'') [])
             else Inr (LeptonEnum (map (\<lambda>val. case val of Str s \<Rightarrow> s | _ \<Rightarrow> []) xs))
         | _ \<Rightarrow> Inl (LeptonError (js ''Enum values must be an array'') [])))"

definition enum_exclude :: "jsstring list \<Rightarrow> jsval list \<Rightarrow> error + schema" where
  "enum_exclude values excluded =
     (let filteredValues = filter (\<lambda>val. Str val \<notin> set excluded) values
      in if length filteredValues = 0 then
           Inl (LeptonError (js ''Cannot exclude all values from an enum'') [])
         else new_LeptonEnum (Arr (map Str filteredValues)))"

fun options :: "schema \<Rightarrow> jsstring list" where
  "options (LeptonEnum values) = values"
| "options S = []"

definition is_numeric_key :: "jsstring \<Rightarrow> bool" where
  "is_numeric_key k = (StringNumericLiteral k \<noteq> None)"

definition nativeEnum :: "jsval \<Rightarrow> error + schema" where
  "nativeEnum enumObject =
     (if enumObject = Undefined \<or> enumObject = Null then Inl JsError
      else
        (let enumKeys = filter (\<lambda>k. \<not> is_numeric_key k) (map fst (own_entries enumObject))
         in if length enumKeys = 0 then Inl (LeptonError (js ''No valid enum keys found'') [])
            else Inr (LeptonNativeEnum enumObject enumKeys
                        (typeof (get_property enumObject (hd enumKeys)) = ''number''))))"

section \<open>Reference definitions\<close>

text \<open>
  The integer a VarInt stands for, as the format describes it: the low seven bits of each
  byte, least significant group first.
\<close>

fun low7_value :: "int list \<Rightarrow> int" where
  "low7_value [] = 0"
| "low7_value (b # bs) = b mod 128 + 128 * low7_value bs"











text \<open>Text made of the digits \<open>toString(16)\<close> prints.\<close>

definition hex_chars :: "string \<Rightarrow> bool" where
  "hex_chars s = (\<forall>c\<in>set s. \<exists>d<16. c = hex_digit d)"

section \<open>Hexadecimal text\<close>

lemma hex_digit_cases:
  assumes "d < 16"
  obtains "d = 0" | "d = 1" | "d = 2" | "d = 3" | "d = 4" | "d = 5" | "d = 6" | "d = 7"
    | "d = 8" | "d = 9" | "d = 10" | "d = 11" | "d = 12" | "d = 13" | "d = 14" | "d = (15::nat)"
  using assms by atomize_elim arith

lemma hex_digit_props:
  assumes "d < 16"
  shows "is_hex_digit (hex_digit d)" "\<not> is_ws (hex_digit d)" "hex_val (hex_digit d) = int d"
    "hex_digit d \<noteq> CHR ''-''" "hex_digit d \<noteq> CHR ''+''" "hex_digit d \<noteq> CHR ''x''" "hex_digit d \<noteq> CHR ''X''"
  using assms
  by (cases d rule: hex_digit_cases; simp add: hex_digit_def is_hex_digit_def is_ws_def hex_val_def)+

lemma hex2_eq:
  assumes "0 \<le> b" "b < 256"
  shows "hex2 b = [hex_digit (nat (b div 16)), hex_digit (nat (b mod 16))]"
proof (cases "b < 16")
  case True
  then show ?thesis using assms
    by (simp add: hex2_def toString_def digits.simps[of 16 b] padStart_def hex_digit_def)
next
  case False
  then have "b div 16 < 16" using assms by simp
  moreover have "b div 16 \<ge> 0" using assms by simp
  ultimately show ?thesis using assms False
    by (simp add: hex2_def toString_def digits.simps[of 16 b] digits.simps[of 16 "b div 16"] padStart_def)
qed

lemma parseInt16_two_digits:
  assumes "d1 < 16" "d2 < 16"
  shows "parseInt16 [hex_digit d1, hex_digit d2] = IntNum (16 * int d1 + int d2)"
  using hex_digit_props[OF assms(1)] hex_digit_props[OF assms(2)]
  by (simp add: parseInt16_def)

lemma parseInt16_hex2:
  assumes "0 \<le> b" "b < 256"
  shows "parseInt16 (hex2 b) = IntNum b"
proof -
  have "nat (b div 16) < 16" "nat (b mod 16) < 16" "0 \<le> b div 16" using assms by auto
  then show ?thesis using assms
    by (simp add: hex2_eq parseInt16_two_digits)
qed

lemma length_hex2: "0 \<le> b \<Longrightarrow> b < 256 \<Longrightarrow> length (hex2 b) = 2"
  by (simp add: hex2_eq)

lemma wrap32_id: "- (2 ^ 31) \<le> n \<Longrightarrow> n < 2 ^ 31 \<Longrightarrow> wrap32 n = n"
  by (simp add: wrap32_def)

lemma and_127: "(b::int) AND 127 = b mod 128"
proof -
  have "b AND mask 7 = take_bit 7 b" by (simp add: take_bit_eq_mask)
  then show ?thesis by (simp add: take_bit_eq_mod mask_eq_exp_minus_1)
qed

lemma and_128_zero_iff:
  assumes "0 \<le> b" "b < 256"
  shows "(b::int) AND 128 = 0 \<longleftrightarrow> b < 128"
proof -
  have "b AND 2 ^ 7 = 0 \<longleftrightarrow> \<not> bit b 7" by (rule and_exp_eq_0_iff_not_bit)
  moreover have "bit b 7 \<longleftrightarrow> 128 \<le> b"
  proof -
    have "b div 128 = 0 \<or> b div 128 = 1" using assms by auto
    then show ?thesis using assms by (auto simp: bit_iff_odd)
  qed
  ultimately show ?thesis by auto
qed

lemma varint_bytes_hex2:
  assumes "0 \<le> b" "b < 256"
  shows "varint_bytes (hex2 b @ s) = (if b < 128 then [IntNum b] else IntNum b # varint_bytes s)"
proof -
  have p: "parseInt16 [hex_digit (nat (b div 16)), hex_digit (nat (b mod 16))] = IntNum b"
    using parseInt16_hex2[OF assms] assms by (simp add: hex2_eq)
  show ?thesis
    using assms and_128_zero_iff[OF assms]
    by (simp add: hex2_eq p ToInt32_def js_and_def wrap32_id)
qed

lemma push_bit_low7_step:
  "push_bit s ((b::int) mod 128 + 128 * L) = push_bit s (b mod 128) OR push_bit (s + 7) L"
proof -
  have "b mod 128 + 128 * L = take_bit 7 b + push_bit 7 L"
    by (simp add: take_bit_eq_mod push_bit_eq_mult)
  also have "\<dots> = take_bit 7 b OR push_bit 7 L"
    using concat_bit_eq[of 7 b L] by (simp add: concat_bit_def)
  finally show ?thesis
    by (simp add: take_bit_eq_mod add.commute)
qed

lemma varint_value_low7:
  assumes "\<forall>b\<in>set bs. 0 \<le> b \<and> b < 256"
  shows "varint_value (map IntNum bs) v shift = v OR push_bit shift (low7_value bs)"
  using assms
proof (induction bs arbitrary: v shift)
  case Nil
  then show ?case by simp
next
  case (Cons b bs)
  then have b: "0 \<le> b" "b < 256" by auto
  have "js_and (ToInt32 (IntNum b)) 127 = b mod 128"
    using b by (simp add: js_and_def ToInt32_def wrap32_id and_127)
  then show ?case using Cons
    by (simp add: push_bit_low7_step or.assoc)
qed

lemma varint_bytes_all_high:
  assumes "\<forall>b\<in>set bs. 128 \<le> b \<and> b < 256"
  shows "varint_bytes (concat (map hex2 bs)) = map IntNum bs"
  using assms
proof (induction bs)
  case Nil
  then show ?case by simp
next
  case (Cons b bs)
  then have "0 \<le> b" "b < 256" "\<not> b < 128" by auto
  then show ?case using Cons varint_bytes_hex2[of b "concat (map hex2 bs)"] by simp
qed

lemma length_concat_hex2:
  assumes "\<forall>b\<in>set bs. 0 \<le> b \<and> b < 256"
  shows "length (concat (map hex2 bs)) = 2 * length bs"
  using assms by (induction bs) (simp_all add: length_hex2)

section \<open>Variable-length integers on truncated and multi-byte input\<close>

text \<open>
  Claim C4. \<open>decodeVarInt\<close> has no failure branch. On a byte sequence in which every
  byte has its high bit set (the empty sequence included) it consumes the whole input
  and returns the integer made of the low seven bits of each byte, least significant
  group first, with an empty remainder.
\<close>

theorem decodeVarInt_truncated:
  assumes "\<forall>b\<in>set bs. 128 \<le> b \<and> b < 256"
  shows "decodeVarInt (concat (map hex2 bs)) = (low7_value bs, [])"
proof -
  have r: "\<forall>b\<in>set bs. 0 \<le> b \<and> b < 256" using assms by auto
  show ?thesis
    using varint_bytes_all_high[OF assms] varint_value_low7[OF r, of 0 0] length_concat_hex2[OF r]
    by (simp add: decodeVarInt_def)
qed

theorem decodeVarInt_truncated_witness:
  "list_all (\<lambda>b. 128 \<le> b \<and> b < 256) [128, 255 :: int]
   \<and> concat (map hex2 [128, 255]) = ''80ff''
   \<and> decodeVarInt ''80ff'' = (16256, [])"
proof -
  have h: "\<forall>b\<in>set [128, 255 :: int]. 128 \<le> b \<and> b < 256" by simp
  have e: "concat (map hex2 [128, 255]) = ''80ff''" by code_simp
  show ?thesis using decodeVarInt_truncated[OF h] e by simp
qed

text \<open>
  Claim C5. \<open>encodeVarInt 300\<close> is the two bytes \<open>ac 02\<close>: the first has the
  continuation bit, the second has not. Followed by any text \<open>t\<close>, they decode to 300
  and leave exactly \<open>t\<close>.
\<close>

theorem varint_300:
  "encodeVarInt 300 = ''ac02''
   \<and> js_and (ToInt32 (parseInt16 ''ac'')) 128 \<noteq> 0
   \<and> js_and (ToInt32 (parseInt16 ''02'')) 128 = 0
   \<and> (\<forall>t. decodeVarInt (encodeVarInt 300 @ t) = (300, t))"
proof -
  have e: "encodeVarInt 300 = ''ac02''" by code_simp
  have a: "js_and (ToInt32 (parseInt16 ''ac'')) 128 \<noteq> 0" by code_simp
  have b: "js_and (ToInt32 (parseInt16 ''02'')) 128 = 0" by code_simp
  have d: "decodeVarInt (''ac02'' @ t) = (300, t)" for t
    by (simp add: decodeVarInt_def parseInt16_def is_ws_def is_hex_digit_def hex_val_def
        js_and_def ToInt32_def wrap32_def)
  show ?thesis using e a b d by simp
qed

section \<open>Bit-width integers\<close>

text \<open>
  Claim C2, evaluated where it fails. The constructor computes the largest value as
  \<open>(1 << bitWidth) - 1\<close> with the 32-bit shift operator, whose shift count is taken
  modulo 32: for width 32 the bound is 0 and for width 31 it is negative, so
  \<open>bits 32\<close> accepts 0 only and \<open>bits 31\<close> accepts nothing, although both
  constructions succeed.
\<close>

theorem bits_32_rejects_one:
  "bits 32 = Inr (LeptonBits 32 0)
   \<and> parse (LeptonBits 32 0) (Num (IntNum 1)) =
       Inl (LeptonError (js ''Value out of range for 32-bit integer: must be between 0 and 0'') [])
   \<and> encode (LeptonBits 32 0) (Num (IntNum 1)) =
       Inl (LeptonError (js ''Value out of range for 32-bit integer: must be between 0 and 0'') [])
   \<and> bits 31 = Inr (LeptonBits 31 (- 2147483649))
   \<and> parse (LeptonBits 31 (- 2147483649)) (Num (IntNum 0)) =
       Inl (LeptonError
         (js ''Value out of range for 31-bit integer: must be between 0 and -2147483649'') [])"
  by code_simp

section \<open>Encoding without validation\<close>

text \<open>
  Claim C3, evaluated where it fails. \<open>LeptonString.encode\<close> hands its argument to
  \<open>TextEncoder\<close> without the type test that \<open>parse\<close> makes and that the
  integer, boolean, big-integer and enum encoders repeat: for the boolean \<open>true\<close>
  validation fails, and encoding returns the length-prefixed text \<open>true\<close>. The value
  reaches the encoder through an object schema as well, whose \<open>encode\<close> takes any
  record.
\<close>

theorem string_encode_accepts_boolean:
  "parse LeptonString (Bool True) = Inl (LeptonError (js ''Expected string, got boolean'') [])
   \<and> encode LeptonString (Bool True) = Inr ''0474727565''
   \<and> parse (object [(js ''name'', LeptonString)]) (Obj [(js ''name'', Bool True)])
       = Inl (LeptonError (js ''Expected string, got boolean'') [js ''name''])
   \<and> encode (object [(js ''name'', LeptonString)]) (Obj [(js ''name'', Bool True)])
       = Inr ''0474727565''
   \<and> encode uint8 (Bool True) = Inl (LeptonError (js ''Expected integer, got boolean'') [])"
  by code_simp

section \<open>Wrapper flag bytes\<close>

text \<open>
  Claim C6. For every inner encoder: Optional encodes the absent value \<open>undefined\<close>
  as the byte \<open>00\<close> and every present value as \<open>01\<close> followed by the inner
  encoding; Nullable encodes \<open>null\<close> as \<open>01\<close> and every other value as
  \<open>00\<close> followed by the inner encoding. A failure of the inner encoder is passed on
  unchanged.
\<close>

theorem wrapper_flag_polarity:
  "encode (LeptonOptional T) = optional_encode (encode T)
   \<and> encode (LeptonNullable T) = nullable_encode (encode T)
   \<and> optional_encode wrapped_encode Undefined = Inr ''00''
   \<and> (v \<noteq> Undefined \<longrightarrow>
        optional_encode wrapped_encode v =
          (case wrapped_encode v of Inl err \<Rightarrow> Inl err | Inr s \<Rightarrow> Inr (''01'' @ s)))
   \<and> nullable_encode wrapped_encode Null = Inr ''01''
   \<and> (v \<noteq> Null \<longrightarrow>
        nullable_encode wrapped_encode v =
          (case wrapped_encode v of Inl err \<Rightarrow> Inl err | Inr s \<Rightarrow> Inr (''00'' @ s)))"
  by (simp add: optional_encode_def nullable_encode_def)

theorem wrapper_flag_polarity_witness:
  "Num (IntNum 5) \<noteq> Undefined \<and> Num (IntNum 5) \<noteq> Null
   \<and> parse uint8 (Num (IntNum 5)) = Inr (Num (IntNum 5))
   \<and> encode uint8 (Num (IntNum 5)) = Inr ''05''
   \<and> encode (LeptonOptional uint8) Undefined = Inr ''00''
   \<and> encode (LeptonOptional uint8) (Num (IntNum 5)) = Inr ''0105''
   \<and> encode (LeptonNullable uint8) Null = Inr ''01''
   \<and> encode (LeptonNullable uint8) (Num (IntNum 5)) = Inr ''0005''"
proof -
  have e: "encode uint8 (Num (IntNum 5)) = Inr ''05''" by code_simp
  have p: "parse uint8 (Num (IntNum 5)) = Inr (Num (IntNum 5))" by code_simp
  show ?thesis
    using wrapper_flag_polarity[of uint8 "encode uint8" "Num (IntNum 5)"] e p by simp
qed

text \<open>
  The marker belongs to the outermost wrapper: where the inner schema accepts
  \<open>undefined\<close> itself, as a nested Optional does, the outer Optional still writes
  the single byte \<open>00\<close> for it; likewise for Nullable and \<open>null\<close>.
\<close>

lemma nested_wrapper_marker:
  "parse (LeptonOptional uint8) Undefined = Inr Undefined
   \<and> encode (LeptonOptional (LeptonOptional uint8)) Undefined = Inr ''00''
   \<and> parse (LeptonNullable uint8) Null = Inr Null
   \<and> encode (LeptonNullable (LeptonNullable uint8)) Null = Inr ''01''"
  by code_simp

text \<open>
  Claim C10. On input that starts with a byte \<open>b\<close>, Optional's \<open>_rawDecode\<close>
  returns \<open>undefined\<close> and the remainder when \<open>b\<close> is 0, and otherwise whatever the
  inner decoder returns on the remainder; Nullable's returns \<open>null\<close> when \<open>b\<close> is 1
  and otherwise the inner decoder's result. No flag byte is rejected.
\<close>

theorem wrapper_flag_decoding:
  assumes "0 \<le> b" "b < 256"
  shows "rawDecode (LeptonOptional T) = optional_rawDecode (rawDecode T)
   \<and> rawDecode (LeptonNullable T) = nullable_rawDecode (rawDecode T)
   \<and> optional_rawDecode wrapped_rawDecode (hex2 b @ rest) =
        (if b = 0 then Inr (Undefined, rest) else wrapped_rawDecode rest)
   \<and> nullable_rawDecode wrapped_rawDecode (hex2 b @ rest) =
        (if b = 1 then Inr (Null, rest) else wrapped_rawDecode rest)"
proof -
  have "slice (hex2 b @ rest) 0 2 = hex2 b" "drop 2 (hex2 b @ rest) = rest"
    using length_hex2[OF assms] by (simp_all add: slice_def)
  then show ?thesis
    using parseInt16_hex2[OF assms] length_hex2[OF assms]
    by (simp add: optional_rawDecode_def nullable_rawDecode_def)
qed

theorem wrapper_flag_decoding_witness:
  "(0::int) \<le> 2 \<and> (2::int) < 256
   \<and> rawDecode (LeptonOptional uint8) ''0207'' = Inr (Num (IntNum 7), [])
   \<and> rawDecode (LeptonNullable uint8) ''0207'' = Inr (Num (IntNum 7), [])
   \<and> rawDecode uint8 ''07'' = Inr (Num (IntNum 7), [])"
proof -
  have h: "hex2 2 @ ''07'' = ''0207''" by code_simp
  have d: "rawDecode uint8 ''07'' = Inr (Num (IntNum 7), [])" by code_simp
  show ?thesis
    using wrapper_flag_decoding[of 2 uint8 "rawDecode uint8" "''07''"] h d by simp
qed

section \<open>Objects and arrays\<close>

text \<open>
  Claim C7. With the shape \<open>{id: uint32}\<close>, the input \<open>{id: 1, extra: true}\<close> is
  rejected in strict mode with the unrecognized-key error, and accepted otherwise with
  the result \<open>{id: 1}\<close>, which has no \<open>extra\<close>.
\<close>

theorem object_strictness:
  "parse (strict (object [(js ''id'', uint32)]))
       (Obj [(js ''id'', Num (IntNum 1)), (js ''extra'', Bool True)])
     = Inl (LeptonError (js ''Unrecognized key(s) in object: extra'') [])
   \<and> parse (object [(js ''id'', uint32)])
       (Obj [(js ''id'', Num (IntNum 1)), (js ''extra'', Bool True)])
     = Inr (Obj [(js ''id'', Num (IntNum 1))])"
  by code_simp

text \<open>
  Claim C8. Validating \<open>[1, "x", 3]\<close> against an array of \<open>uint8\<close> fails with the
  element's error and the path \<open>["1"]\<close>.
\<close>

theorem array_element_error_path:
  "parse (array uint8) (Arr [Num (IntNum 1), Str (js ''x''), Num (IntNum 3)])
     = Inl (LeptonError (js ''Expected integer, got string'') [js ''1''])"
  by code_simp

section \<open>Derived enums\<close>

text \<open>
  Claim C9. Excluding \<open>b\<close> from the enum \<open>a, b, c\<close> gives the enum \<open>a, c\<close>;
  \<open>c\<close> is encoded as \<open>02\<close> by the original and as \<open>01\<close> by the derived enum;
  and \<open>exclude\<close> fails whenever no value is left.
\<close>

theorem enum_exclude_shifts_indices:
  "new_LeptonEnum (Arr [Str (js ''a''), Str (js ''b''), Str (js ''c'')]) = Inr (LeptonEnum [js ''a'', js ''b'', js ''c''])
   \<and> enum_exclude [js ''a'', js ''b'', js ''c''] [Str (js ''b'')] = Inr (LeptonEnum [js ''a'', js ''c''])
   \<and> options (LeptonEnum [js ''a'', js ''c'']) = [js ''a'', js ''c'']
   \<and> encode (LeptonEnum [js ''a'', js ''b'', js ''c'']) (Str (js ''c'')) = Inr ''02''
   \<and> encode (LeptonEnum [js ''a'', js ''c'']) (Str (js ''c'')) = Inr ''01''
   \<and> (filter (\<lambda>val. Str val \<notin> set excluded) values = [] \<longrightarrow>
        enum_exclude values excluded =
          Inl (LeptonError (js ''Cannot exclude all values from an enum'') []))"
proof -
  have "new_LeptonEnum (Arr [Str (js ''a''), Str (js ''b''), Str (js ''c'')]) = Inr (LeptonEnum [js ''a'', js ''b'', js ''c''])"
    by code_simp
  moreover have "enum_exclude [js ''a'', js ''b'', js ''c''] [Str (js ''b'')] = Inr (LeptonEnum [js ''a'', js ''c''])"
    by code_simp
  moreover have "encode (LeptonEnum [js ''a'', js ''b'', js ''c'']) (Str (js ''c'')) = Inr ''02''"
    by code_simp
  moreover have "encode (LeptonEnum [js ''a'', js ''c'']) (Str (js ''c'')) = Inr ''01''"
    by code_simp
  ultimately show ?thesis
    by (simp add: enum_exclude_def)
qed

theorem enum_exclude_shifts_indices_witness:
  "filter (\<lambda>val. Str val \<notin> set [Str (js ''a''), Str (js ''b''), Str (js ''c'')]) [js ''a'', js ''b'', js ''c''] = []
   \<and> enum_exclude [js ''a'', js ''b'', js ''c''] [Str (js ''a''), Str (js ''b''), Str (js ''c'')] =
       Inl (LeptonError (js ''Cannot exclude all values from an enum'') [])"
  using enum_exclude_shifts_indices
    [of "[Str (js ''a''), Str (js ''b''), Str (js ''c'')]" "[js ''a'', js ''b'', js ''c'']"]
  by simp

section \<open>Round trip\<close>

subsection \<open>Fixed-width and variable-length numbers\<close>


lemma drop_concat_hex2:
  assumes "\<forall>b\<in>set bs. 0 \<le> b \<and> b < 256"
  shows "drop (length bs * 2) (concat (map hex2 bs) @ rest) = rest"
  using length_concat_hex2[OF assms] by simp




lemma hex_chars_simps [simp]:
  "hex_chars []" "hex_chars (c # s) = ((\<exists>d<16. c = hex_digit d) \<and> hex_chars s)"
  "hex_chars (s @ t) = (hex_chars s \<and> hex_chars t)"
  by (auto simp: hex_chars_def)














lemma wrap32_range: "- (2 ^ 31) \<le> wrap32 n" "wrap32 n < 2 ^ 31"
  by (simp_all add: wrap32_def)

lemma wrap32_idem [simp]: "wrap32 (wrap32 n) = wrap32 n"
  using wrap32_range[of n] by (intro wrap32_id) simp_all



















subsection \<open>UTF-8 encoding and decoding\<close>
























subsection \<open>Double-precision bit patterns\<close>









subsection \<open>Single-precision bit patterns\<close>












subsection \<open>Strings, doubles and native enums\<close>







subsection \<open>Wrappers and arrays\<close>









subsection \<open>Objects\<close>













subsection \<open>Every schema node\<close>






subsection \<open>Accepted values the wire does not carry back\<close>

text \<open>
  Each condition of \<open>wire_safe\<close> excludes values that validation accepts and that
  do not come back. A single-precision slot rounds: 16777217 is accepted unchanged and
  comes back as 16777216.
\<close>

lemma float_rounds_to_single_precision:
  "parse LeptonFloat (Num (IntNum 16777217)) = Inr (Num (IntNum 16777217))
   \<and> encode LeptonFloat (Num (IntNum 16777217)) = Inr ''4b800000''
   \<and> decode LeptonFloat ''4b800000'' = Inr (Num (IntNum 16777216))"
  by code_simp

text \<open>
  A string that starts with U+FEFF loses it, and a lone surrogate comes back as U+FFFD.
\<close>

lemma string_leading_bom_dropped:
  "parse LeptonString (Str [65279, 97]) = Inr (Str [65279, 97])
   \<and> encode LeptonString (Str [65279, 97]) = Inr ''04efbbbf61''
   \<and> decode LeptonString ''04efbbbf61'' = Inr (Str [97])"
  by code_simp

lemma string_lone_surrogate_replaced:
  "parse LeptonString (Str [55357]) = Inr (Str [55357])
   \<and> encode LeptonString (Str [55357]) = Inr ''03efbfbd''
   \<and> decode LeptonString ''03efbfbd'' = Inr (Str [65533])"
  by code_simp

text \<open>
  A negative big integer is encoded as no bytes at all, which decode as 0; a negative
  zero in an integer slot is encoded as 0.
\<close>

lemma bigint_negative_lost:
  "parse LeptonBigInt (BigInt (- 1)) = Inr (BigInt (- 1))
   \<and> encode LeptonBigInt (BigInt (- 1)) = Inr []
   \<and> decode LeptonBigInt [] = Inr (BigInt 0)"
  by code_simp

lemma integer_negative_zero_lost:
  "parse uint8 (Num negative_zero) = Inr (Num negative_zero)
   \<and> encode uint8 (Num negative_zero) = Inr ''00''
   \<and> decode uint8 ''00'' = Inr (Num (IntNum 0))"
  by code_simp

text \<open>
  An enum accepts the number 1 for the value \<open>"1"\<close> and writes the index \<open>-1\<close>
  for it; a numeric native enum accepts the string \<open>"1"\<close>, which its encoder
  refuses.
\<close>

lemma enum_number_not_encoded:
  "parse (LeptonEnum [js ''1'', js ''2'']) (Num (IntNum 1)) = Inr (Num (IntNum 1))
   \<and> encode (LeptonEnum [js ''1'', js ''2'']) (Num (IntNum 1)) = Inr ''-1''"
  by code_simp

lemma nativeEnum_numeric_string_not_encoded:
  "nativeEnum (Obj [(js ''0'', Str (js ''Off'')), (js ''1'', Str (js ''On'')),
                    (js ''Off'', Num (IntNum 0)), (js ''On'', Num (IntNum 1))])
     = Inr (LeptonNativeEnum (Obj [(js ''0'', Str (js ''Off'')), (js ''1'', Str (js ''On'')),
                    (js ''Off'', Num (IntNum 0)), (js ''On'', Num (IntNum 1))])
              [js ''Off'', js ''On''] True)
   \<and> parse (LeptonNativeEnum (Obj [(js ''0'', Str (js ''Off'')), (js ''1'', Str (js ''On'')),
                    (js ''Off'', Num (IntNum 0)), (js ''On'', Num (IntNum 1))])
              [js ''Off'', js ''On''] True) (Str (js ''1'')) = Inr (Num (IntNum 1))
   \<and> encode (LeptonNativeEnum (Obj [(js ''0'', Str (js ''Off'')), (js ''1'', Str (js ''On'')),
                    (js ''Off'', Num (IntNum 0)), (js ''On'', Num (IntNum 1))])
              [js ''Off'', js ''On''] True) (Str (js ''1''))
       = Inl (LeptonError (js ''Could not encode enum value: 1'') [])"
  by code_simp

end
